theory Spec2Isabelle
  imports Main "HOL-Library.Sublist"
begin

section \<open>Python strings\<close>

text \<open>
  The compiler of \<^verbatim>\<open>tealish/nodes.py\<close> works on lines of text. A Python \<^verbatim>\<open>str\<close> is modelled
  as a \<open>string\<close> (a list of 8-bit characters); the characters that matter to the code
  (quotes, parentheses, commas, brackets, digits, blanks) are all ASCII.
\<close>

definition dquote :: char where
  "dquote = CHR 0x22"

definition newline :: char where
  "newline = CHR 0x0A"

text \<open>\<^verbatim>\<open>str.isspace\<close> on the code points below 256.\<close>

definition isspace :: "char \<Rightarrow> bool" where
  "isspace c =
     (let n = (of_char c :: nat)
      in (9 \<le> n \<and> n \<le> 13) \<or> (28 \<le> n \<and> n \<le> 32) \<or> n = 133 \<or> n = 160)"

text \<open>\<^verbatim>\<open>s.strip()\<close>: leading and trailing blanks removed.\<close>

definition strip :: "string \<Rightarrow> string" where
  "strip s = rev (dropWhile isspace (rev (dropWhile isspace s)))"

text \<open>\<^verbatim>\<open>s.startswith(p)\<close>, written out so that it evaluates.\<close>

fun startswith :: "string \<Rightarrow> string \<Rightarrow> bool" where
  "startswith s [] = True"
| "startswith [] (p # ps) = False"
| "startswith (c # cs) (p # ps) = (c = p \<and> startswith cs ps)"

text \<open>\<^verbatim>\<open>str(n)\<close> for a non-negative integer, as the f-strings print slots, sizes, line
  numbers and label indices.\<close>

definition digit_char :: "nat \<Rightarrow> char" where
  "digit_char d = ''0123456789'' ! d"

fun str_nat :: "nat \<Rightarrow> string" where
  "str_nat n = (if n < 10 then [digit_char n] else str_nat (n div 10) @ [digit_char (n mod 10)])"

declare str_nat.simps [simp del]

text \<open>\<^verbatim>\<open>sep.join(xs)\<close>.\<close>

fun join :: "string \<Rightarrow> string list \<Rightarrow> string" where
  "join sep [] = []"
| "join sep [x] = x"
| "join sep (x # y # ys) = x @ sep @ join sep (y # ys)"

section \<open>Errors\<close>

text \<open>
  Every \<^verbatim>\<open>raise\<close> of the source is a value: \<open>ParseError\<close> and \<open>CompileError\<close> are the
  compiler's own exceptions (\<^verbatim>\<open>tealish/errors.py\<close>), the others are Python's built-in
  exceptions that the code lets escape.
\<close>

datatype error =
    ParseError string
  | CompileError string
  | KeyError string
  | AttributeError string
  | TypeError string
  | ValueError string
  | IndexError string

section \<open>Splitting the arguments of a return statement\<close>

text \<open>
  \<^verbatim>\<open>split_return_args(s)\<close> (nodes.py, lines 2042--2055). The \<^verbatim>\<open>for\<close> loop is \<open>find_split\<close>:
  it carries \<^verbatim>\<open>parentheses\<close> (a Python int, which may go negative) and \<^verbatim>\<open>quotes\<close>, and
  returns the index \<^verbatim>\<open>i\<close> at which the loop body returns, or \<open>None\<close> when the loop runs to
  the end of the string.
\<close>

fun find_split :: "int \<Rightarrow> bool \<Rightarrow> nat \<Rightarrow> string \<Rightarrow> nat option" where
  "find_split parentheses quotes i [] = None"
| "find_split parentheses quotes i (c # cs) =
     (let quotes1 = (if c = dquote then \<not> quotes else quotes)
      in if \<not> quotes1 then
           (let p1 = (if c = CHR ''('' then parentheses + 1 else parentheses);
                p2 = (if c = CHR '')'' then p1 - 1 else p1)
            in if p2 = 0 \<and> c = CHR '','' then Some i
               else find_split p2 quotes1 (Suc i) cs)
         else find_split parentheses quotes1 (Suc i) cs)"

lemma find_split_bounds:
  "find_split p q i s = Some j \<Longrightarrow> i \<le> j \<and> j < i + length s"
proof (induction s arbitrary: p q i)
  case Nil
  then show ?case by simp
next
  case (Cons c cs)
  then show ?case
    by (fastforce simp: Let_def split: if_splits)
qed

lemma length_strip_le: "length (strip s) \<le> length s"
proof -
  have "length (strip s) \<le> length (dropWhile isspace s)"
    unfolding strip_def by (simp add: length_dropWhile_le order_trans [OF length_dropWhile_le])
  also have "\<dots> \<le> length s" by (rule length_dropWhile_le)
  finally show ?thesis .
qed

function split_return_args :: "string \<Rightarrow> string list" where
  "split_return_args s =
     (case find_split 0 False 0 s of
        None \<Rightarrow> [s]
      | Some i \<Rightarrow> strip (take i s) # split_return_args (strip (drop (Suc i) s)))"
  by pat_completeness auto
termination
proof (relation "measure length")
  show "wf (measure length)" by simp
next
  fix s :: string and i :: nat
  assume "find_split 0 False 0 s = Some i"
  then have "i < length s" using find_split_bounds by fastforce
  moreover have "length (strip (drop (Suc i) s)) \<le> length (drop (Suc i) s)"
    by (rule length_strip_le)
  ultimately show "(strip (drop (Suc i) s), s) \<in> measure length" by simp
qed

declare split_return_args.simps [simp del]


section \<open>Regular expressions of the line patterns\<close>

text \<open>
  Every node class has a \<^verbatim>\<open>pattern\<close> that \<^verbatim>\<open>Node.__init__\<close> applies to the line with
  \<^verbatim>\<open>re.match\<close> (anchored at the start of the line only). The patterns used below are
  written out as matchers that follow the regular expression from left to right and
  try its alternatives in the order the backtracking matcher of \<^verbatim>\<open>re\<close> does.
\<close>

definition is_digit :: "char \<Rightarrow> bool" where
  "is_digit c = (let n = (of_char c :: nat) in 48 \<le> n \<and> n \<le> 57)"

definition is_upper :: "char \<Rightarrow> bool" where
  "is_upper c = (let n = (of_char c :: nat) in 65 \<le> n \<and> n \<le> 90)"

definition is_lower :: "char \<Rightarrow> bool" where
  "is_lower c = (let n = (of_char c :: nat) in 97 \<le> n \<and> n \<le> 122)"

text \<open>The class \<^verbatim>\<open>[a-zA-Z0-9_]\<close>.\<close>

definition is_word :: "char \<Rightarrow> bool" where
  "is_word c = (is_lower c \<or> is_upper c \<or> is_digit c \<or> c = CHR ''_'')"

text \<open>The regular expression \<^verbatim>\<open>.\<close>: any character but a newline.\<close>

definition dot :: "char \<Rightarrow> bool" where
  "dot c = (c \<noteq> newline)"

text \<open>A literal at the start of the text; the result is the text after it.\<close>

fun literal :: "string \<Rightarrow> string \<Rightarrow> string option" where
  "literal [] s = Some s"
| "literal (p # ps) [] = None"
| "literal (p # ps) (c # cs) = (if p = c then literal ps cs else None)"

subsection \<open>InnerTxnFieldSetter.pattern\<close>

text \<open>
  \<^verbatim>\<open>(?P<field_name>.*?)(\[(?P<index>\d\d?)\])?: (?P<expression>.*)\<close> (nodes.py, line 964).

  \<open>index_group\<close> is the group \<^verbatim>\<open>(\[(?P<index>\d\d?)\])\<close>: a bracket, one digit, a second
  digit if there is one followed by the closing bracket, else the closing bracket at once.
\<close>

fun index_group :: "string \<Rightarrow> (string \<times> string) option" where
  "index_group (b # d1 # d2 # c # r) =
     (if b = CHR ''['' \<and> is_digit d1 \<and> is_digit d2 \<and> c = CHR '']'' then Some ([d1, d2], r)
      else if b = CHR ''['' \<and> is_digit d1 \<and> d2 = CHR '']'' then Some ([d1], c # r)
      else None)"
| "index_group [b, d1, d2] =
     (if b = CHR ''['' \<and> is_digit d1 \<and> d2 = CHR '']'' then Some ([d1], []) else None)"
| "index_group s = None"

text \<open>
  \<open>setter_tail\<close> is what follows the field name: the optional index group, the literal
  \<^verbatim>\<open>": "\<close> and the greedy \<^verbatim>\<open>.*\<close> of the expression. The group is tried first; when the
  text after it is not \<^verbatim>\<open>": "\<close> the matcher backtracks and tries without the group.
\<close>

definition setter_tail :: "string \<Rightarrow> (string option \<times> string) option" where
  "setter_tail s =
     (case (case index_group s of
              None \<Rightarrow> None
            | Some (idx, r) \<Rightarrow>
                (case literal '': '' r of
                   None \<Rightarrow> None
                 | Some e \<Rightarrow> Some (Some idx, takeWhile dot e))) of
        Some m \<Rightarrow> Some m
      | None \<Rightarrow>
          (case literal '': '' s of
             None \<Rightarrow> None
           | Some e \<Rightarrow> Some (None, takeWhile dot e)))"

text \<open>
  The lazy \<^verbatim>\<open>.*?\<close> of the field name: the shortest prefix after which the rest of the
  pattern matches. \<open>acc\<close> is the prefix taken so far.
\<close>

fun setter_match_from :: "string \<Rightarrow> string \<Rightarrow> (string \<times> string option \<times> string) option" where
  "setter_match_from acc [] =
     (case setter_tail [] of
        Some (idx, e) \<Rightarrow> Some (acc, idx, e)
      | None \<Rightarrow> None)"
| "setter_match_from acc (c # cs) =
     (case setter_tail (c # cs) of
        Some (idx, e) \<Rightarrow> Some (acc, idx, e)
      | None \<Rightarrow> if dot c then setter_match_from (acc @ [c]) cs else None)"

text \<open>The groups \<open>(field_name, index, expression)\<close> of a matching line.\<close>

definition InnerTxnFieldSetter_pattern :: "string \<Rightarrow> (string \<times> string option \<times> string) option" where
  "InnerTxnFieldSetter_pattern line = setter_match_from [] line"

subsection \<open>BoxDeclaration.pattern\<close>

text \<open>
  \<^verbatim>\<open>box<(?P<struct_name>[A-Z][a-zA-Z0-9_]*)> (?P<name>[a-z][a-zA-Z0-9_]*)\<close>
  \<^verbatim>\<open> = (?P<method>Open|Create)?Box\((?P<key>.*)\)$\<close> (nodes.py, lines 1988--1991).

  \<open>ident first s\<close> is a character of class \<open>first\<close> and then the longest run of word
  characters; what follows an identifier in the pattern is never a word character, so
  giving characters back cannot make the rest match.
\<close>

definition ident :: "(char \<Rightarrow> bool) \<Rightarrow> string \<Rightarrow> (string \<times> string) option" where
  "ident first s =
     (case s of
        [] \<Rightarrow> None
      | c # cs \<Rightarrow> if first c then Some (c # takeWhile is_word cs, dropWhile is_word cs) else None)"

text \<open>
  \<^verbatim>\<open>(?P<method>Open|Create)?Box\(\<close>: the alternatives of the optional group in their
  order, each followed by the literal, then the literal with the group left out.
\<close>

definition method_Box :: "string \<Rightarrow> (string option \<times> string) option" where
  "method_Box s =
     (case (case literal ''Open'' s of None \<Rightarrow> None | Some r \<Rightarrow> literal ''Box('' r) of
        Some r \<Rightarrow> Some (Some ''Open'', r)
      | None \<Rightarrow>
          (case (case literal ''Create'' s of None \<Rightarrow> None | Some r \<Rightarrow> literal ''Box('' r) of
             Some r \<Rightarrow> Some (Some ''Create'', r)
           | None \<Rightarrow>
               (case literal ''Box('' s of
                  Some r \<Rightarrow> Some (None, r)
                | None \<Rightarrow> None)))"

text \<open>
  \<^verbatim>\<open>(?P<key>.*)\)$\<close>: the key runs to the last character, which is the closing
  parenthesis; \<^verbatim>\<open>$\<close> also matches before a newline that ends the text.
\<close>

definition key_close :: "string \<Rightarrow> string option" where
  "key_close s =
     (let t = (if s \<noteq> [] \<and> last s = newline then butlast s else s)
      in if t \<noteq> [] \<and> last t = CHR '')'' \<and> list_all dot (butlast t) then Some (butlast t)
         else None)"

text \<open>The groups \<open>(struct_name, name, method, key)\<close> of a matching line.\<close>

definition BoxDeclaration_pattern ::
  "string \<Rightarrow> (string \<times> string \<times> string option \<times> string) option" where
  "BoxDeclaration_pattern line =
     (case literal ''box<'' line of
        None \<Rightarrow> None
      | Some s1 \<Rightarrow>
          (case ident is_upper s1 of
             None \<Rightarrow> None
           | Some (struct_name, s2) \<Rightarrow>
               (case literal ''> '' s2 of
                  None \<Rightarrow> None
                | Some s3 \<Rightarrow>
                    (case ident is_lower s3 of
                       None \<Rightarrow> None
                     | Some (name, s4) \<Rightarrow>
                         (case literal '' = '' s4 of
                            None \<Rightarrow> None
                          | Some s5 \<Rightarrow>
                              (case method_Box s5 of
                                 None \<Rightarrow> None
                               | Some (method, s6) \<Rightarrow>
                                   (case key_close s6 of
                                      None \<Rightarrow> None
                                    | Some key \<Rightarrow> Some (struct_name, name, method, key))))))))"

subsection \<open>The tests of LineStatement.consume\<close>

text \<open>
  \<^verbatim>\<open>LineStatement.consume\<close> (nodes.py, lines 369--411) picks the class of a line by a chain
  of prefix tests and three regular expressions.

  \<^verbatim>\<open>[A-Za-z][a-zA-Z_0-9]*(\[[0-9]+\])? [a-zA-Z_0-9]+( = .*)?\<close> (line 392):
  the optional tail cannot make the match fail, so the test ends after the second word.
\<close>

definition bracket_digits :: "string \<Rightarrow> string option" where
  "bracket_digits s =
     (case literal ''['' s of
        None \<Rightarrow> None
      | Some r \<Rightarrow>
          if takeWhile is_digit r = [] then None else literal '']'' (dropWhile is_digit r))"

definition space_word :: "string \<Rightarrow> bool" where
  "space_word s =
     (case literal '' '' s of
        None \<Rightarrow> False
      | Some r \<Rightarrow> takeWhile is_word r \<noteq> [])"

definition var_declaration_test :: "string \<Rightarrow> bool" where
  "var_declaration_test line =
     (case ident (\<lambda>c. is_upper c \<or> is_lower c) line of
        None \<Rightarrow> False
      | Some (w, r) \<Rightarrow>
          (case bracket_digits r of
             Some r1 \<Rightarrow> space_word r1 \<or> space_word r
           | None \<Rightarrow> space_word r))"

text \<open>\<^verbatim>\<open>[a-z][a-zA-Z_0-9]*\.[a-z][a-zA-Z_0-9]* = .*\<close> (line 397).\<close>

definition struct_assignment_test :: "string \<Rightarrow> bool" where
  "struct_assignment_test line =
     (case ident is_lower line of
        None \<Rightarrow> False
      | Some (w, r) \<Rightarrow>
          (case literal ''.'' r of
             None \<Rightarrow> False
           | Some r1 \<Rightarrow>
               (case ident is_lower r1 of
                  None \<Rightarrow> False
                | Some (f, r2) \<Rightarrow> literal '' = '' r2 \<noteq> None)))"

text \<open>\<^verbatim>\<open>[a-zA-Z_0-9]+\(.*\)\<close> (line 406): a word, an opening parenthesis, and a closing
  one somewhere before the end of the line.\<close>

definition function_call_test :: "string \<Rightarrow> bool" where
  "function_call_test line =
     (takeWhile is_word line \<noteq> [] \<and>
      (case literal ''('' (dropWhile is_word line) of
         None \<Rightarrow> False
       | Some r \<Rightarrow> CHR '')'' \<in> set (takeWhile dot r)))"

text \<open>\<^verbatim>\<open>sub in line\<close> for strings.\<close>

fun contains :: "string \<Rightarrow> string \<Rightarrow> bool" where
  "contains [] sub = (sub = [])"
| "contains (c # cs) sub = (startswith (c # cs) sub \<or> contains cs sub)"

datatype line_class =
    TealVersion_class | Comment_class | Blank_class | Const_class | Jump_class
  | Return_class | Break_class | VarDeclaration_class | BoxDeclaration_class
  | StructOrBoxAssignment_class | Assignment_class | Exit_class | Assert_class
  | FunctionCallStatement_class

text \<open>
  The class \<^verbatim>\<open>LineStatement.consume\<close> constructs for a line, \<open>line_no\<close> being
  \<^verbatim>\<open>compiler.line_no\<close> after the line was consumed.
\<close>

definition LineStatement_dispatch :: "nat \<Rightarrow> string \<Rightarrow> error + line_class" where
  "LineStatement_dispatch line_no line =
     (if startswith line ''#pragma'' then
        (if line_no \<noteq> 1 then
           Inl (ParseError (''Teal version must be specified in the first line of the program: ''
                  @ [dquote] @ line @ [dquote] @ '' at '' @ str_nat line_no @ ''.''))
         else Inr TealVersion_class)
      else if startswith line ''#'' then Inr Comment_class
      else if line = [] then Inr Blank_class
      else if startswith line ''const '' then Inr Const_class
      else if startswith line ''jump '' then Inr Jump_class
      else if startswith line ''return'' then Inr Return_class
      else if startswith line ''break'' then Inr Break_class
      else if var_declaration_test line then Inr VarDeclaration_class
      else if startswith line ''box<'' then Inr BoxDeclaration_class
      else if struct_assignment_test line then Inr StructOrBoxAssignment_class
      else if contains line '' = '' then Inr Assignment_class
      else if startswith line ''exit('' then Inr Exit_class
      else if startswith line ''assert('' then Inr Assert_class
      else if function_call_test line then Inr FunctionCallStatement_class
      else Inl (ParseError (''Unexpected line statement: '' @ [dquote] @ line @ [dquote]
                  @ '' at '' @ str_nat line_no @ ''.'')))"


section \<open>Types and expressions\<close>

text \<open>
  Modelled from the spec: the type objects of \<^verbatim>\<open>tealish/types.py\<close>, which is not among the
  sources. The spec (section 3) lists \<open>IntType\<close> with its subtype \<open>UIntType\<close>, \<open>BytesType\<close>
  with its opaque subtypes \<open>BigIntType\<close> and \<open>AddrType\<close>, \<open>AnyType\<close>, \<open>StructType\<close> and
  \<open>BoxType\<close>. A type object carries its class, its \<^verbatim>\<open>size\<close>, the \<^verbatim>\<open>name\<close> it prints as, and
  for a struct or box the fields with their offset, size and type. The predicates
  \<^verbatim>\<open>can_hold\<close> and \<^verbatim>\<open>can_hold_with_cast\<close> are parameters of the functions that call them.
\<close>

datatype ty_class =
    IntType | UIntType | BytesType | BigIntType | AddrType | AnyType | StructType | BoxType

datatype ty =
  Ty (ty_class: ty_class) (ty_size: "nat option") (ty_name: string)
     (ty_fields: "(string \<times> struct_field) list")
and struct_field =
  StructField (field_offset: nat) (field_size: nat) (field_tealish_type: ty)

text \<open>\<^verbatim>\<open>isinstance(t, IntType)\<close>: \<open>UIntType\<close> is a subclass of \<open>IntType\<close>.\<close>

definition isinstance_IntType :: "ty \<Rightarrow> bool" where
  "isinstance_IntType t = (ty_class t = IntType \<or> ty_class t = UIntType)"

definition isinstance_UIntType :: "ty \<Rightarrow> bool" where
  "isinstance_UIntType t = (ty_class t = UIntType)"

definition isinstance_StructType :: "ty \<Rightarrow> bool" where
  "isinstance_StructType t = (ty_class t = StructType)"

definition isinstance_BoxType :: "ty \<Rightarrow> bool" where
  "isinstance_BoxType t = (ty_class t = BoxType)"

text \<open>
  Modelled from the spec: an expression node. The expression parser is an external
  collaborator (\<^verbatim>\<open>parse_expression\<close>); its nodes carry what the statements read: whether
  \<^verbatim>\<open>process()\<close> raises, the \<^verbatim>\<open>type\<close> it leaves, the lines \<^verbatim>\<open>write_teal\<close> emits and the
  text \<^verbatim>\<open>tealish()\<close> prints.
\<close>

datatype expr =
  Expr (expr_process: "error option") (expr_type: ty) (expr_teal: "string list")
       (expr_tealish: string)

section \<open>The compiler and the writer\<close>

text \<open>
  Modelled from the spec: the driver and the writer (\<^verbatim>\<open>TealishCompiler\<close>, \<^verbatim>\<open>TealWriter\<close>)
  are not among the sources. Of the driver the nodes read and write the flag
  \<^verbatim>\<open>use_inner_txns_macro\<close> (\<open>None\<close> until set), \<^verbatim>\<open>max_slot\<close> and \<^verbatim>\<open>conditional_count\<close>; the
  writer is a line-buffered emitter with an indentation level. An emitted line is kept
  with the level it was written at.
\<close>

record state =
  use_inner_txns_macro :: "bool option"
  max_slot :: nat
  conditional_count :: nat
  writer_level :: int
  writer_output :: "(int \<times> string) list"

text \<open>The text of the emitted lines.\<close>

definition teal :: "state \<Rightarrow> string list" where
  "teal st = map snd (writer_output st)"

text \<open>\<^verbatim>\<open>writer.write(node, text)\<close> for a string.\<close>

definition writer_write :: "string \<Rightarrow> state \<Rightarrow> state" where
  "writer_write text st =
     st\<lparr>writer_output := writer_output st @ [(writer_level st, text)]\<rparr>"

text \<open>\<^verbatim>\<open>writer.write(node, expression)\<close>: the expression writes its lines.\<close>

definition write_expression :: "expr \<Rightarrow> state \<Rightarrow> state" where
  "write_expression e st = fold writer_write (expr_teal e) st"

text \<open>
  Modelled from the comments of the callers (``struct setter one liner''):
  \<^verbatim>\<open>writer.write(node, [..])\<close> for a list of instructions and
  \<^verbatim>\<open>writer.write(node, expression, one_line=True)\<close> put the instructions on one line.
\<close>

definition write_one_line :: "string list \<Rightarrow> state \<Rightarrow> state" where
  "write_one_line ts st = writer_write (join ''; '' ts) st"

text \<open>\<^verbatim>\<open>writer.level += 1\<close> and \<^verbatim>\<open>writer.level -= 1\<close>.\<close>

definition level_up :: "state \<Rightarrow> state" where
  "level_up st = st\<lparr>writer_level := writer_level st + 1\<rparr>"

definition level_down :: "state \<Rightarrow> state" where
  "level_down st = st\<lparr>writer_level := writer_level st - 1\<rparr>"

text \<open>Steps run in order; the first error ends the run, as an exception does.\<close>

fun seq :: "('s \<Rightarrow> error + 's) list \<Rightarrow> 's \<Rightarrow> error + 's" where
  "seq [] st = Inr st"
| "seq (f # fs) st = (case f st of Inl e \<Rightarrow> Inl e | Inr st1 \<Rightarrow> seq fs st1)"

definition w :: "string \<Rightarrow> state \<Rightarrow> error + state" where
  "w text st = Inr (writer_write text st)"

definition we :: "expr \<Rightarrow> state \<Rightarrow> error + state" where
  "we e st = Inr (write_expression e st)"

definition up :: "state \<Rightarrow> error + state" where
  "up st = Inr (level_up st)"

definition down :: "state \<Rightarrow> error + state" where
  "down st = Inr (level_down st)"

text \<open>The source-map comment \<^verbatim>\<open>// tl:{line_no}: {line}\<close>.\<close>

definition tl_comment :: "nat \<Rightarrow> string \<Rightarrow> string" where
  "tl_comment line_no line = ''// tl:'' @ str_nat line_no @ '': '' @ line"

text \<open>\<^verbatim>\<open>str(n)\<close> for an integer that may be negative.\<close>

definition str_int :: "int \<Rightarrow> string" where
  "str_int i = (if i < 0 then ''-'' @ str_nat (nat (- i)) else str_nat (nat i))"


section \<open>The constants table\<close>

text \<open>\<^verbatim>\<open>constants\<close> of \<^verbatim>\<open>tealish_builtins.py\<close> (lines 84--96), a dictionary in insertion order.\<close>

datatype AVMType = AVM_any | AVM_bytes | AVM_int | AVM_none

definition constants :: "(string \<times> AVMType \<times> int) list" where
  "constants =
     [(''NoOp'', AVM_int, 0),
      (''OptIn'', AVM_int, 1),
      (''CloseOut'', AVM_int, 2),
      (''ClearState'', AVM_int, 3),
      (''UpdateApplication'', AVM_int, 4),
      (''DeleteApplication'', AVM_int, 5),
      (''Pay'', AVM_int, 1),
      (''Acfg'', AVM_int, 3),
      (''Axfer'', AVM_int, 4),
      (''Afrz'', AVM_int, 5),
      (''Appl'', AVM_int, 6)]"

section \<open>The syntax tree\<close>

text \<open>
  One constructor per node class of \<^verbatim>\<open>nodes.py\<close>. A node carries its \<^verbatim>\<open>line_no\<close> and
  \<^verbatim>\<open>line\<close> first, then the attributes its \<^verbatim>\<open>write_teal\<close> reads, as they stand after the
  build pass and \<^verbatim>\<open>process\<close>: labels, scratch slots and the targets of name lookups
  (\<^verbatim>\<open>get_block\<close>, \<^verbatim>\<open>lookup_func\<close>, \<^verbatim>\<open>get_var\<close> go through \<^verbatim>\<open>Scope\<close>, which is not among the
  sources, so a node holds what the lookup returned).
\<close>

text \<open>A function as the router sees it: its label, the attributes its decorators set
  (decorator name to parameters) and its return types.\<close>

datatype func_info =
  FuncInfo (func_label: string) (func_attributes: "(string \<times> (string \<times> string) list) list")
           (func_returns: "ty list")

text \<open>\<^verbatim>\<open>Route\<close>: the name on the line, the function \<^verbatim>\<open>lookup_func(name)\<close> returns and the
  argument expressions \<^verbatim>\<open>Route.process\<close> built.\<close>

datatype route =
  Route (route_name: string) (route_func: func_info) (arg_expressions: "expr list")

text \<open>
  The nodes that hold no statement of their own come first (\<open>leaf\<close>), the nodes with a
  body of statements after them (\<open>node\<close>).
\<close>

datatype leaf =
    TealVersion nat string string
      \<comment> \<open>\<open>version\<close>\<close>
  | Comment nat string string
      \<comment> \<open>\<open>comment\<close>\<close>
  | Blank nat string
  | Const nat string string string
      \<comment> \<open>\<open>name\<close>, \<open>literal.value\<close>\<close>
  | Jump nat string string string
      \<comment> \<open>\<open>block_name\<close>, the label of \<open>get_block(block_name)\<close>\<close>
  | Exit nat string expr
  | FunctionCallStatement nat string expr
  | Assert nat string expr "string option"
      \<comment> \<open>\<open>arg\<close>, \<open>message\<close>\<close>
  | VarDeclaration nat string string string nat "expr option"
      \<comment> \<open>\<open>type_name\<close>, \<open>name.value\<close>, \<open>var.scratch_slot\<close>, \<open>expression\<close>\<close>
  | Assignment nat string expr "(string \<times> nat) list"
      \<comment> \<open>\<open>expression\<close>, \<open>name_nodes\<close> with \<open>value\<close> and \<open>slot\<close>\<close>
  | Switch nat string expr "(expr \<times> string \<times> string) list" "(string \<times> string) option"
      \<comment> \<open>\<open>expression\<close>; options: expression, block name, label of the block; else:
          block name and label\<close>
  | Router nat string "route list"
  | Teal nat string "string list"
      \<comment> \<open>the lines of the \<open>TealLine\<close> children\<close>
  | InnerTxnFieldSetter nat string string "string option" expr
      \<comment> \<open>\<open>field_name\<close>, \<open>index\<close>, \<open>expression\<close>\<close>
  | Break nat string string
      \<comment> \<open>\<open>parent_loop.end_label\<close>\<close>
  | Return nat string string "expr list" "ty list"
      \<comment> \<open>\<open>args\<close>, \<open>args_expressions\<close>, \<open>func.returns\<close>\<close>
  | Decorator nat string string string
      \<comment> \<open>\<open>name\<close>, \<open>params\<close>\<close>
  | StructFieldDefinition nat string string string
      \<comment> \<open>\<open>field_name\<close>, \<open>data_type\<close>\<close>
  | StructOrBoxAssignment nat string string string ty ty nat nat expr
      \<comment> \<open>\<open>name.value\<close>, \<open>field_name\<close>, \<open>object_type\<close>, \<open>data_type\<close>, \<open>offset\<close>,
          \<open>var.scratch_slot\<close>, \<open>expression\<close>\<close>
  | BoxDeclaration nat string string string "string option" expr nat nat
      \<comment> \<open>\<open>struct_name\<close>, \<open>name.value\<close>, \<open>method\<close>, \<open>key\<close>, \<open>box_size\<close>,
          \<open>var.scratch_slot\<close>\<close>

datatype node =
    Program "node list" "nat option"
      \<comment> \<open>\<open>child_nodes\<close>; the scratch slot of \<open>inner_group_flag\<close> once \<open>process\<close> declared it\<close>
  | Leaf leaf
  | Block nat string string string "node list"
      \<comment> \<open>\<open>name\<close>, \<open>label\<close>, \<open>child_nodes\<close>\<close>
  | InnerTxn nat string "node list"
  | InnerGroup nat string "node list"
  | IfThen nat string string string "node list"
      \<comment> \<open>\<open>label\<close>, \<open>next_label\<close>, \<open>child_nodes\<close>\<close>
  | Elif nat string "string option" expr string string "node list"
      \<comment> \<open>\<open>modifier\<close>, \<open>condition\<close>, \<open>label\<close>, \<open>next_label\<close>, \<open>child_nodes\<close>\<close>
  | Else nat string string string "node list"
      \<comment> \<open>\<open>label\<close>, \<open>next_label\<close>, \<open>child_nodes\<close>\<close>
  | IfStatement nat string "string option" expr nat string string node "node list" "node option"
      \<comment> \<open>\<open>modifier\<close>, \<open>condition\<close>, \<open>conditional_index\<close>, \<open>next_label\<close>, \<open>end_label\<close>,
          \<open>if_then\<close>, \<open>elifs\<close>, \<open>else_\<close>\<close>
  | WhileStatement nat string "string option" expr string string "node list"
      \<comment> \<open>\<open>modifier\<close>, \<open>condition\<close>, \<open>start_label\<close>, \<open>end_label\<close>, \<open>child_nodes\<close>\<close>
  | ForStatement nat string string nat expr expr string string "node list"
      \<comment> \<open>\<open>var.name\<close>, \<open>var.scratch_slot\<close>, \<open>start\<close>, \<open>end\<close>, \<open>start_label\<close>, \<open>end_label\<close>,
          \<open>child_nodes\<close>\<close>
  | For_Statement nat string expr expr string string "node list"
      \<comment> \<open>\<open>start\<close>, \<open>end\<close>, \<open>start_label\<close>, \<open>end_label\<close>, \<open>child_nodes\<close>\<close>
  | Func nat string string "(string \<times> nat \<times> string) list" "ty list" "node list"
      \<comment> \<open>\<open>label\<close>; \<open>args.args\<close> in order, each with the slot and the printed type of
          \<open>vars[name]\<close>; \<open>returns\<close>; \<open>child_nodes\<close>\<close>
  | DecoratedFunc nat string "node list" node
      \<comment> \<open>\<open>decorators\<close>, \<open>func\<close>\<close>
  | StructDefinition nat string string "node list"
      \<comment> \<open>\<open>name\<close>, \<open>child_nodes\<close>\<close>

section \<open>Code generation\<close>

subsection \<open>Nodes without a body\<close>

text \<open>\<^verbatim>\<open>Switch.write_teal\<close> (lines 787--799), one option of the loop.\<close>

definition Switch_option :: "expr \<Rightarrow> expr \<times> string \<times> string \<Rightarrow> state \<Rightarrow> error + state" where
  "Switch_option expression opt =
     (case opt of (option_expression, block_name, label) \<Rightarrow>
        seq [we expression, we option_expression, w ''=='', w (''bnz '' @ label)])"

text \<open>
  \<^verbatim>\<open>Router.write_teal\<close> (lines 873--923). The loop over \<^verbatim>\<open>func.returns\<close> is \<open>write_returns\<close>,
  with \<^verbatim>\<open>i\<close> the index of \<^verbatim>\<open>enumerate\<close>.
\<close>

definition route_label :: "route \<Rightarrow> string" where
  "route_label r = ''route_'' @ route_name r"

fun write_returns :: "nat \<Rightarrow> ty list \<Rightarrow> state \<Rightarrow> state" where
  "write_returns i [] st = st"
| "write_returns i (r # rs) st =
     (let st1 = (if i > 0 then writer_write (''uncover '' @ str_nat i @ '' // '' @ ty_name r) st
                 else writer_write (''// uncover '' @ str_nat i @ '' '' @ ty_name r) st);
          st2 = (if isinstance_IntType r then writer_write ''itob'' st1 else st1)
      in write_returns (Suc i) rs st2)"

text \<open>The assertion on \<^verbatim>\<open>OnCompletion\<close> (lines 884--895); both dictionary lookups can raise.\<close>

definition write_on_completion :: "func_info \<Rightarrow> state \<Rightarrow> error + state" where
  "write_on_completion func st =
     (case map_of (func_attributes func) ''public'' of
        None \<Rightarrow> Inl (KeyError ''public'')
      | Some public \<Rightarrow>
          (let oc = (case map_of public ''OnCompletion'' of None \<Rightarrow> ''NoOp'' | Some v \<Rightarrow> v)
           in if oc = ''CreateApplication'' then
                w ''txn ApplicationID; pushint 0; ==; assert // ApplicationID == 0'' st
              else
                (case map_of constants oc of
                   None \<Rightarrow> Inl (KeyError oc)
                 | Some (t, v) \<Rightarrow>
                     w (''txn OnCompletion; pushint '' @ str_int v
                          @ ''; ==; assert // assert OnCompletion == '' @ oc) st)))"

text \<open>The encoding of the return values (lines 901--921).\<close>

definition write_return_log :: "ty list \<Rightarrow> state \<Rightarrow> error + state" where
  "write_return_log returns st =
     (if returns \<noteq> [] then
        seq [w (''// return '' @ join '', '' (map ty_name returns)),
             (\<lambda>st. Inr (write_returns 0 returns st)),
             (\<lambda>st. Inr (fold writer_write (replicate (length returns - 1) ''concat'') st)),
             w ''pushbytes 0x151f7c75; swap; concat; log // arc4 return log''] st
      else Inr st)"

text \<open>The body of the loop over the routes (lines 881--923).\<close>

definition write_route :: "route \<Rightarrow> state \<Rightarrow> error + state" where
  "write_route route =
     seq [w (route_label route @ '':''),
          up,
          write_on_completion (route_func route),
          (\<lambda>st. Inr (fold (\<lambda>e. write_one_line (expr_teal e)) (arg_expressions route) st)),
          w (''callsub '' @ func_label (route_func route)),
          write_return_log (func_returns (route_func route)),
          w ''pushint 1; return'',
          down]"

definition Router_write_teal :: "nat \<Rightarrow> string \<Rightarrow> route list \<Rightarrow> state \<Rightarrow> error + state" where
  "Router_write_teal line_no line routes =
     seq ([w (tl_comment line_no line)]
          @ map (\<lambda>r. w (''pushbytes '' @ [dquote] @ route_name r @ [dquote])) routes
          @ [w ''txna ApplicationArgs 0'',
             w (''match '' @ join '' '' (map route_label routes)),
             w ''err // unexpected value'']
          @ map write_route routes)"

text \<open>
  The instructions \<^verbatim>\<open>StructOrBoxAssignment.write_teal\<close> puts before the setter (lines
  1937--1943 and 1956--1962): \<^verbatim>\<open>8 - size\<close> needs a size, \<open>TypeError\<close> otherwise.
\<close>

definition itob_extract :: "ty \<Rightarrow> error + string list" where
  "itob_extract data_type =
     (if isinstance_IntType data_type then
        (if isinstance_UIntType data_type then
           (case ty_size data_type of
              None \<Rightarrow> Inl (TypeError ''size'')
            | Some n \<Rightarrow> Inr [''itob'', ''extract '' @ str_int (8 - int n) @ '' '' @ str_nat n])
         else Inr [''itob''])
      else Inr [])"

definition write_setter :: "ty \<Rightarrow> string list \<Rightarrow> state \<Rightarrow> error + state" where
  "write_setter data_type setter st =
     (case itob_extract data_type of
        Inl e \<Rightarrow> Inl e
      | Inr ts \<Rightarrow> Inr (write_one_line (ts @ setter) st))"

text \<open>\<^verbatim>\<open>BoxDeclaration.write_teal\<close> (lines 2014--2031), the branch on \<^verbatim>\<open>method\<close>.\<close>

definition write_box_method :: "string option \<Rightarrow> nat \<Rightarrow> string \<Rightarrow> state \<Rightarrow> error + state" where
  "write_box_method method box_size struct_name =
     (if method = Some ''Open'' then
        w (''dup; box_len; assert; pushint '' @ str_nat box_size
             @ ''; ==; assert // len(box) == '' @ struct_name @ ''.size'')
      else if method = Some ''Create'' then
        w (''dup; pushint '' @ str_nat box_size
             @ ''; box_create; assert // create & assert created'')
      else if method = Some ''OpenOrCreate'' then
        w (''dup; pushint '' @ str_nat box_size
             @ ''; box_create; pop // create if didn'' @ [CHR 0x27] @ ''t already exist'')
      else Inr)"

text \<open>\<^verbatim>\<open>write_teal\<close> of the classes without a body of statements.\<close>

fun write_leaf :: "leaf \<Rightarrow> state \<Rightarrow> error + state" where
  "write_leaf (TealVersion line_no line version) = w (''#pragma version '' @ version)"
| "write_leaf (Comment line_no line comment) = w (''//'' @ comment)"
| "write_leaf (Blank line_no line) = w []"
| "write_leaf (Const line_no line name literal_value) =
     w (''#define '' @ name @ '' '' @ literal_value)"
| "write_leaf (Jump line_no line block_name label) =
     seq [w (tl_comment line_no line), w (''b '' @ label)]"
| "write_leaf (Exit line_no line expression) =
     seq [w (tl_comment line_no line), we expression, w ''return'']"
| "write_leaf (FunctionCallStatement line_no line expression) =
     seq [w (tl_comment line_no line), we expression]"
| "write_leaf (Assert line_no line arg message) =
     seq [w (tl_comment line_no line), we arg,
          (case message of
             None \<Rightarrow> w ''assert''
           | Some m \<Rightarrow> if m \<noteq> [] then w (''assert // '' @ m) else w ''assert'')]"
| "write_leaf (VarDeclaration line_no line type_name name slot expression) =
     seq [w (tl_comment line_no line @ '' [slot '' @ str_nat slot @ '']''),
          (case expression of
             None \<Rightarrow> Inr
           | Some e \<Rightarrow> seq [we e, w (''store '' @ str_nat slot @ '' // '' @ name)])]"
| "write_leaf (Assignment line_no line expression name_nodes) =
     seq ([w (tl_comment line_no line), we expression]
          @ map (\<lambda>(v, slot). if v = ''_'' then w ''pop // discarding value for _''
                               else w (''store '' @ str_nat slot @ '' // '' @ v)) name_nodes)"
| "write_leaf (Switch line_no line expression options else_target) =
     seq ([w (tl_comment line_no line)]
          @ map (Switch_option expression) options
          @ [case else_target of
               Some (block_name, label) \<Rightarrow> w (''b '' @ label @ '' // else'')
             | None \<Rightarrow> w ''err // unexpected value''])"
| "write_leaf (Router line_no line routes) = Router_write_teal line_no line routes"
| "write_leaf (Teal line_no line teal_lines) = seq (map w teal_lines)"
| "write_leaf (InnerTxnFieldSetter line_no line field_name index expression) =
     seq [w (tl_comment line_no line), we expression, w (''itxn_field '' @ field_name)]"
| "write_leaf (Break line_no line end_label) =
     seq [w (tl_comment line_no line), w (''b '' @ end_label)]"
| "write_leaf (Return line_no line args args_expressions returns) =
     seq [w (tl_comment line_no line),
          (if args \<noteq> [] then seq (map we (rev args_expressions)) else Inr),
          w ''retsub'']"
| "write_leaf (Decorator line_no line name params) = w (tl_comment line_no line)"
| "write_leaf (StructFieldDefinition line_no line field_name data_type) = Inr"
| "write_leaf (StructOrBoxAssignment line_no line name field_name object_type data_type
       offset slot expression) =
     (if isinstance_StructType object_type then
        seq [w (tl_comment line_no line @ '' [slot '' @ str_nat slot @ '']''),
             we expression,
             write_setter data_type
               [''load '' @ str_nat slot, ''swap'', ''replace '' @ str_nat offset,
                ''store '' @ str_nat slot, ''// set '' @ name @ ''.'' @ field_name]]
      else if isinstance_BoxType object_type then
        seq [w (tl_comment line_no line),
             we expression,
             write_setter data_type
               [''load '' @ str_nat slot, ''pushint '' @ str_nat offset, ''uncover 2'',
                ''box_replace'', ''// boxset '' @ name @ ''.'' @ field_name]]
      else Inr)"
| "write_leaf (BoxDeclaration line_no line struct_name name method key box_size slot) =
     seq [w (tl_comment line_no line @ '' [slot '' @ str_nat slot @ '']''),
          we key,
          write_box_method method box_size struct_name,
          w (''store '' @ str_nat slot @ '' // box:'' @ name)]"

text \<open>The attributes \<^verbatim>\<open>line_no\<close> and \<^verbatim>\<open>line\<close> of a node, and the class name that
  \<^verbatim>\<open>Node.__repr__\<close> prints. A \<^verbatim>\<open>Program\<close> is built from the empty line before any line is read.\<close>

fun leaf_line_no :: "leaf \<Rightarrow> nat" where
  "leaf_line_no (TealVersion line_no line version) = line_no"
| "leaf_line_no (Comment line_no line comment) = line_no"
| "leaf_line_no (Blank line_no line) = line_no"
| "leaf_line_no (Const line_no line name literal_value) = line_no"
| "leaf_line_no (Jump line_no line block_name label) = line_no"
| "leaf_line_no (Exit line_no line expression) = line_no"
| "leaf_line_no (FunctionCallStatement line_no line expression) = line_no"
| "leaf_line_no (Assert line_no line arg message) = line_no"
| "leaf_line_no (VarDeclaration line_no line type_name name slot expression) = line_no"
| "leaf_line_no (Assignment line_no line expression name_nodes) = line_no"
| "leaf_line_no (Switch line_no line expression options else_target) = line_no"
| "leaf_line_no (Router line_no line routes) = line_no"
| "leaf_line_no (Teal line_no line teal_lines) = line_no"
| "leaf_line_no (InnerTxnFieldSetter line_no line field_name index expression) = line_no"
| "leaf_line_no (Break line_no line end_label) = line_no"
| "leaf_line_no (Return line_no line args args_expressions returns) = line_no"
| "leaf_line_no (Decorator line_no line name params) = line_no"
| "leaf_line_no (StructFieldDefinition line_no line field_name data_type) = line_no"
| "leaf_line_no (StructOrBoxAssignment line_no line name field_name object_type data_type
     offset slot expression) = line_no"
| "leaf_line_no (BoxDeclaration line_no line struct_name name method key box_size slot) =
     line_no"

fun leaf_line :: "leaf \<Rightarrow> string" where
  "leaf_line (TealVersion line_no line version) = line"
| "leaf_line (Comment line_no line comment) = line"
| "leaf_line (Blank line_no line) = line"
| "leaf_line (Const line_no line name literal_value) = line"
| "leaf_line (Jump line_no line block_name label) = line"
| "leaf_line (Exit line_no line expression) = line"
| "leaf_line (FunctionCallStatement line_no line expression) = line"
| "leaf_line (Assert line_no line arg message) = line"
| "leaf_line (VarDeclaration line_no line type_name name slot expression) = line"
| "leaf_line (Assignment line_no line expression name_nodes) = line"
| "leaf_line (Switch line_no line expression options else_target) = line"
| "leaf_line (Router line_no line routes) = line"
| "leaf_line (Teal line_no line teal_lines) = line"
| "leaf_line (InnerTxnFieldSetter line_no line field_name index expression) = line"
| "leaf_line (Break line_no line end_label) = line"
| "leaf_line (Return line_no line args args_expressions returns) = line"
| "leaf_line (Decorator line_no line name params) = line"
| "leaf_line (StructFieldDefinition line_no line field_name data_type) = line"
| "leaf_line (StructOrBoxAssignment line_no line name field_name object_type data_type offset
     slot expression) = line"
| "leaf_line (BoxDeclaration line_no line struct_name name method key box_size slot) = line"

fun leaf_repr :: "leaf \<Rightarrow> string" where
  "leaf_repr (TealVersion line_no line version) = ''TealVersion''"
| "leaf_repr (Comment line_no line comment) = ''Comment''"
| "leaf_repr (Blank line_no line) = ''Blank''"
| "leaf_repr (Const line_no line name literal_value) = ''Const''"
| "leaf_repr (Jump line_no line block_name label) = ''Jump''"
| "leaf_repr (Exit line_no line expression) = ''Exit''"
| "leaf_repr (FunctionCallStatement line_no line expression) = ''FunctionCallStatement''"
| "leaf_repr (Assert line_no line arg message) = ''Assert''"
| "leaf_repr (VarDeclaration line_no line type_name name slot expression) =
     ''VarDeclaration''"
| "leaf_repr (Assignment line_no line expression name_nodes) = ''Assignment''"
| "leaf_repr (Switch line_no line expression options else_target) = ''Switch''"
| "leaf_repr (Router line_no line routes) = ''Router''"
| "leaf_repr (Teal line_no line teal_lines) = ''Teal''"
| "leaf_repr (InnerTxnFieldSetter line_no line field_name index expression) =
     ''InnerTxnFieldSetter''"
| "leaf_repr (Break line_no line end_label) = ''Break''"
| "leaf_repr (Return line_no line args args_expressions returns) = ''Return''"
| "leaf_repr (Decorator line_no line name params) = ''Decorator''"
| "leaf_repr (StructFieldDefinition line_no line field_name data_type) =
     ''StructFieldDefinition''"
| "leaf_repr (StructOrBoxAssignment line_no line name field_name object_type data_type offset
     slot expression) = ''StructOrBoxAssignment''"
| "leaf_repr (BoxDeclaration line_no line struct_name name method key box_size slot) =
     ''BoxDeclaration''"

fun node_line_no :: "node \<Rightarrow> nat" where
  "node_line_no (Program child_nodes flag_var) = 0"
| "node_line_no (Leaf l) = leaf_line_no l"
| "node_line_no (Block line_no line name label child_nodes) = line_no"
| "node_line_no (InnerTxn line_no line child_nodes) = line_no"
| "node_line_no (InnerGroup line_no line child_nodes) = line_no"
| "node_line_no (IfThen line_no line label next_label child_nodes) = line_no"
| "node_line_no (Elif line_no line modifier condition label next_label child_nodes) = line_no"
| "node_line_no (Else line_no line label next_label child_nodes) = line_no"
| "node_line_no (IfStatement line_no line modifier condition conditional_index next_label
     end_label if_then elifs else_branch) = line_no"
| "node_line_no (WhileStatement line_no line modifier condition start_label end_label
     child_nodes) = line_no"
| "node_line_no (ForStatement line_no line var_name slot start end start_label end_label
     child_nodes) = line_no"
| "node_line_no (For_Statement line_no line start end start_label end_label child_nodes) =
     line_no"
| "node_line_no (Func line_no line label args returns child_nodes) = line_no"
| "node_line_no (DecoratedFunc line_no line decorators func) = line_no"
| "node_line_no (StructDefinition line_no line name child_nodes) = line_no"

fun node_line :: "node \<Rightarrow> string" where
  "node_line (Program child_nodes flag_var) = []"
| "node_line (Leaf l) = leaf_line l"
| "node_line (Block line_no line name label child_nodes) = line"
| "node_line (InnerTxn line_no line child_nodes) = line"
| "node_line (InnerGroup line_no line child_nodes) = line"
| "node_line (IfThen line_no line label next_label child_nodes) = line"
| "node_line (Elif line_no line modifier condition label next_label child_nodes) = line"
| "node_line (Else line_no line label next_label child_nodes) = line"
| "node_line (IfStatement line_no line modifier condition conditional_index next_label
     end_label if_then elifs else_branch) = line"
| "node_line (WhileStatement line_no line modifier condition start_label end_label
     child_nodes) = line"
| "node_line (ForStatement line_no line var_name slot start end start_label end_label
     child_nodes) = line"
| "node_line (For_Statement line_no line start end start_label end_label child_nodes) = line"
| "node_line (Func line_no line label args returns child_nodes) = line"
| "node_line (DecoratedFunc line_no line decorators func) = line"
| "node_line (StructDefinition line_no line name child_nodes) = line"

fun node_repr :: "node \<Rightarrow> string" where
  "node_repr (Program child_nodes flag_var) = ''Program''"
| "node_repr (Leaf l) = leaf_repr l"
| "node_repr (Block line_no line name label child_nodes) = ''Block''"
| "node_repr (InnerTxn line_no line child_nodes) = ''InnerTxn''"
| "node_repr (InnerGroup line_no line child_nodes) = ''InnerGroup''"
| "node_repr (IfThen line_no line label next_label child_nodes) = ''IfThen''"
| "node_repr (Elif line_no line modifier condition label next_label child_nodes) = ''Elif''"
| "node_repr (Else line_no line label next_label child_nodes) = ''Else''"
| "node_repr (IfStatement line_no line modifier condition conditional_index next_label
     end_label if_then elifs else_branch) = ''IfStatement''"
| "node_repr (WhileStatement line_no line modifier condition start_label end_label
     child_nodes) = ''WhileStatement''"
| "node_repr (ForStatement line_no line var_name slot start end start_label end_label
     child_nodes) = ''ForStatement''"
| "node_repr (For_Statement line_no line start end start_label end_label child_nodes) =
     ''For_Statement''"
| "node_repr (Func line_no line label args returns child_nodes) = ''Func''"
| "node_repr (DecoratedFunc line_no line decorators func) = ''DecoratedFunc''"
| "node_repr (StructDefinition line_no line name child_nodes) = ''StructDefinition''"

subsection \<open>The epilogue of the program\<close>

text \<open>\<^verbatim>\<open>s.splitlines()\<close> for a text whose only line boundaries are newlines.\<close>

fun splitlines_from :: "string \<Rightarrow> string \<Rightarrow> string list" where
  "splitlines_from cur [] = (if cur = [] then [] else [cur])"
| "splitlines_from cur (c # cs) =
     (if c = newline then cur # splitlines_from [] cs else splitlines_from (cur @ [c]) cs)"

definition splitlines :: "string \<Rightarrow> string list" where
  "splitlines s = splitlines_from [] s"

text \<open>\<^verbatim>\<open>s.index(sub)\<close>; \<open>None\<close> where Python raises \<open>ValueError\<close>.\<close>

fun str_index :: "string \<Rightarrow> string \<Rightarrow> nat option" where
  "str_index [] sub = (if sub = [] then Some 0 else None)"
| "str_index (c # cs) sub =
     (if startswith (c # cs) sub then Some 0 else map_option Suc (str_index cs sub))"

text \<open>
  The f-string \<^verbatim>\<open>teal\<close> of \<^verbatim>\<open>Program.write_teal\<close> (lines 330--352) with \<open>slot\<close> for
  \<^verbatim>\<open>var.scratch_slot\<close>: a newline, the lines of the four subroutines with the indentation
  they have in the source file, and the indentation of the closing quotes.
\<close>

definition Program_teal :: "nat \<Rightarrow> string" where
  "Program_teal slot =
     concat (map (\<lambda>l. l @ [newline])
       [[],
        ''            _itxn_group_begin:'',
        ''              load '' @ str_nat slot @ ''; !; assert // ensure no group active'',
        ''              int 1; store '' @ str_nat slot @ ''; retsub // set group flag'',
        [],
        ''            _itxn_begin:'',
        ''              load '' @ str_nat slot,
        ''              switch _itxn_begin__0 _itxn_begin__1 _itxn_begin__2'',
        ''              err'',
        ''              _itxn_begin__0: itxn_begin; retsub // no group'',
        ''              _itxn_begin__1: itxn_begin; int 2; store '' @ str_nat slot
          @ ''; retsub // start first txn of group'',
        ''              _itxn_begin__2: itxn_next; retsub // start next txn of group'',
        [],
        ''            _itxn_submit:'',
        ''              load '' @ str_nat slot,
        ''              bz _itxn_submit__0'',
        ''              retsub // in a group, don'' @ [CHR 0x27] @ ''t submit'',
        ''              _itxn_submit__0: itxn_submit; retsub // no group, submit'',
        [],
        ''            _itxn_group_submit:'',
        ''              itxn_submit'',
        ''              int 0; store '' @ str_nat slot @ ''; retsub // set group flag to 0''])
     @ ''            ''"

text \<open>
  The second half of \<^verbatim>\<open>Program.write_teal\<close> (lines 328--355). \<open>flag_var\<close> is the scratch
  slot of the variable \<^verbatim>\<open>inner_group_flag\<close>, \<open>None\<close> when \<^verbatim>\<open>get_var\<close> finds none.
\<close>

definition Program_epilogue :: "nat option \<Rightarrow> state \<Rightarrow> error + state" where
  "Program_epilogue flag_var st =
     (if use_inner_txns_macro st = Some True then
        (case flag_var of
           None \<Rightarrow> Inl (AttributeError ''scratch_slot'')
         | Some slot \<Rightarrow>
             (case str_index (Program_teal slot) ''_itxn_group_begin'' of
                None \<Rightarrow> Inl (ValueError ''substring not found'')
              | Some k \<Rightarrow>
                  (let indent_spaces = k - 1
                   in Inr (fold (\<lambda>line. writer_write (drop indent_spaces line))
                             (splitlines (Program_teal slot)) st))))
      else Inr st)"

subsection \<open>Nodes with a body\<close>

text \<open>The attribute \<^verbatim>\<open>label\<close> that \<^verbatim>\<open>IfStatement\<close> reads from its branches.\<close>

fun node_label :: "node \<Rightarrow> string" where
  "node_label (IfThen line_no line label next_label child_nodes) = label"
| "node_label (Elif line_no line modifier condition label next_label child_nodes) = label"
| "node_label (Else line_no line label next_label child_nodes) = label"
| "node_label n = []"

text \<open>\<^verbatim>\<open>self.compiler.use_inner_txns_macro = False\<close> (line 1046).\<close>

definition set_use_inner_txns_macro :: "bool \<Rightarrow> state \<Rightarrow> error + state" where
  "set_use_inner_txns_macro b st = Inr (st\<lparr>use_inner_txns_macro := Some b\<rparr>)"

text \<open>The unconditional branch to the end label, written one level deeper (lines
  1353--1355 and 1363--1365).\<close>

definition write_b_end :: "string \<Rightarrow> state \<Rightarrow> error + state" where
  "write_b_end end_label = seq [up, w (''b '' @ end_label), down]"

text \<open>
  \<^verbatim>\<open>write_teal\<close> of the classes with a body. \<open>write_nodes\<close> is the loop
  \<^verbatim>\<open>for n in self.child_nodes: n.write_teal(writer)\<close>; \<open>write_elifs\<close> is the loop over
  \<^verbatim>\<open>enumerate(self.elifs)\<close> of \<^verbatim>\<open>IfStatement.write_teal\<close> with \<open>n_elifs\<close> for
  \<^verbatim>\<open>len(self.elifs)\<close> and \<open>has_else\<close> for the truth of \<^verbatim>\<open>self.else_\<close>.
\<close>

fun write_teal :: "node \<Rightarrow> state \<Rightarrow> error + state"
and write_nodes :: "node list \<Rightarrow> state \<Rightarrow> error + state"
and write_elifs :: "string \<Rightarrow> bool \<Rightarrow> nat \<Rightarrow> nat \<Rightarrow> node list \<Rightarrow> state \<Rightarrow> error + state"
where
  "write_teal (Program child_nodes flag_var) =
     seq [write_nodes child_nodes, Program_epilogue flag_var]"
| "write_teal (Leaf l) = write_leaf l"
| "write_teal (Block line_no line name label child_nodes) =
     seq [w (''// block '' @ name), w (label @ '':''), up, write_nodes child_nodes, down]"
| "write_teal (InnerTxn line_no line child_nodes) =
     seq [set_use_inner_txns_macro False,
          w (tl_comment line_no line),
          (\<lambda>st. if use_inner_txns_macro st = Some True then
                 seq [w ''callsub _itxn_begin'', up, write_nodes child_nodes, down,
                      w ''callsub _itxn_submit'', w ''// end inner_txn''] st
               else
                 seq [w ''itxn_begin'', up, write_nodes child_nodes, down,
                      w ''itxn_submit'', w ''// end inner_txn''] st)]"
| "write_teal (InnerGroup line_no line child_nodes) =
     seq [w (tl_comment line_no line), w ''callsub _itxn_group_begin'', up,
          write_nodes child_nodes, w ''callsub _itxn_group_submit'', down,
          w ''// end inner_group'']"
| "write_teal (IfThen line_no line label next_label child_nodes) =
     seq [w ''// then:'', up, write_nodes child_nodes, down]"
| "write_teal (Elif line_no line modifier condition label next_label child_nodes) =
     seq [we condition,
          (if modifier = Some ''not'' then w (''bnz '' @ next_label)
           else w (''bz '' @ next_label)),
          up, write_nodes child_nodes, down]"
| "write_teal (Else line_no line label next_label child_nodes) = write_nodes child_nodes"
| "write_teal (IfStatement line_no line modifier condition conditional_index next_label
       end_label if_then elifs else_branch) =
     seq [w (tl_comment line_no line),
          we condition,
          (if modifier = Some ''not'' then w (''bnz '' @ next_label)
           else w (''bz '' @ next_label)),
          write_teal if_then,
          (if elifs \<noteq> [] \<or> else_branch \<noteq> None then write_b_end end_label else Inr),
          write_elifs end_label (else_branch \<noteq> None) (length elifs) 0 elifs,
          (case else_branch of
             None \<Rightarrow> Inr
           | Some e \<Rightarrow>
               seq [w (node_label e @ '':''), w (tl_comment (node_line_no e) (node_line e)),
                    up, write_teal e, down]),
          w (end_label @ '':'')]"
| "write_teal (WhileStatement line_no line modifier condition start_label end_label
       child_nodes) =
     seq [w (tl_comment line_no line), w (start_label @ '':''), up, we condition,
          (if modifier = Some ''not'' then w (''bnz '' @ end_label)
           else w (''bz '' @ end_label)),
          write_nodes child_nodes,
          w (''b '' @ start_label), w (end_label @ '':''), down]"
| "write_teal (ForStatement line_no line var_name slot start end start_label end_label
       child_nodes) =
     seq [w (tl_comment line_no line), up, we start,
          w (''store '' @ str_nat slot @ '' // '' @ var_name),
          w (start_label @ '':''),
          w (''load '' @ str_nat slot @ '' // '' @ var_name),
          we end, w ''=='', w (''bnz '' @ end_label),
          write_nodes child_nodes,
          w (''load '' @ str_nat slot @ '' // '' @ var_name),
          w ''pushint 1'', w ''+'',
          w (''store '' @ str_nat slot @ '' // '' @ var_name),
          w (''b '' @ start_label), w (end_label @ '':''), down]"
| "write_teal (For_Statement line_no line start end start_label end_label child_nodes) =
     seq [w (tl_comment line_no line), up, we start, w ''dup'',
          w (start_label @ '':''),
          we end, w ''=='', w (''bnz '' @ end_label),
          write_nodes child_nodes,
          w ''pushint 1'', w ''+'', w ''dup'',
          w (''b '' @ start_label), w ''pop'', w (end_label @ '':''), down]"
| "write_teal (Func line_no line label args returns child_nodes) =
     seq ([w (tl_comment line_no line), w (label @ '':''), up]
          @ map (\<lambda>(name, slot, tealish_type).
                   w (''store '' @ str_nat slot @ '' // '' @ name @ '' ['' @ tealish_type @ '']''))
              (rev args)
          @ [write_nodes child_nodes, down])"
| "write_teal (DecoratedFunc line_no line decorators func) = write_teal func"
| "write_teal (StructDefinition line_no line name child_nodes) = Inr"
| "write_nodes [] = Inr"
| "write_nodes (n # ns) = seq [write_teal n, write_nodes ns]"
| "write_elifs end_label has_else n_elifs i [] = Inr"
| "write_elifs end_label has_else n_elifs i (e # es) =
     seq [w (node_label e @ '':''), w (tl_comment (node_line_no e) (node_line e)),
          up, write_teal e,
          (if int i \<noteq> int n_elifs - 1 \<or> has_else then write_b_end end_label else Inr),
          down,
          write_elifs end_label has_else n_elifs (Suc i) es]"

section \<open>The build pass\<close>

text \<open>
  \<^verbatim>\<open>Node.__init__\<close> (lines 74--103) matches the pattern of the class against the line and
  raises \<open>ParseError\<close> when it does not match; a group whose type hint is
  \<^verbatim>\<open>GenericExpression\<close> is parsed, and a failure of the parser is a \<open>ParseError\<close> too. The
  expression parser is a parameter \<open>parse_expression\<close> (\<open>None\<close> when it raises). The
  message prints the pattern, the name of the class and the line.
\<close>

definition backslash :: char where
  "backslash = CHR 0x5C"

definition pattern_error :: "string \<Rightarrow> string \<Rightarrow> string \<Rightarrow> error" where
  "pattern_error pattern cls line =
     ParseError (''Pattern ('' @ pattern @ '') does not match for '' @ cls @ '' for line ''
       @ [dquote] @ line @ [dquote])"

text \<open>The texts of the patterns (lines 1988--1991 and 964).\<close>

definition BoxDeclaration_pattern_text :: string where
  "BoxDeclaration_pattern_text =
     ''box<(?P<struct_name>[A-Z][a-zA-Z0-9_]*)> (?P<name>[a-z][a-zA-Z0-9_]*)''
     @ '' = (?P<method>Open|Create)?Box'' @ [backslash] @ ''((?P<key>.*)'' @ [backslash]
     @ '')$''"

definition InnerTxnFieldSetter_pattern_text :: string where
  "InnerTxnFieldSetter_pattern_text =
     ''(?P<field_name>.*?)('' @ [backslash] @ ''[(?P<index>'' @ [backslash] @ ''d''
     @ [backslash] @ ''d?)'' @ [backslash] @ ''])?: (?P<expression>.*)''"

definition expression_error :: "string \<Rightarrow> nat \<Rightarrow> error" where
  "expression_error text line_no =
     ParseError (''Cannot parse '' @ [dquote] @ text @ [dquote] @ '' as Expression at line ''
       @ str_nat line_no)"

text \<open>\<^verbatim>\<open>BoxDeclaration(line, parent, compiler)\<close>; \<^verbatim>\<open>box_size\<close> and the slot are set by
  \<^verbatim>\<open>process\<close>.\<close>

definition BoxDeclaration_init :: "(string \<Rightarrow> expr option) \<Rightarrow> nat \<Rightarrow> string \<Rightarrow> error + leaf" where
  "BoxDeclaration_init parse_expression line_no line =
     (case BoxDeclaration_pattern line of
        None \<Rightarrow> Inl (pattern_error BoxDeclaration_pattern_text ''BoxDeclaration'' line)
      | Some (struct_name, name, method, key) \<Rightarrow>
          (case parse_expression key of
             None \<Rightarrow> Inl (expression_error key line_no)
           | Some e \<Rightarrow> Inr (BoxDeclaration line_no line struct_name name method e 0 0)))"

text \<open>\<^verbatim>\<open>InnerTxnFieldSetter(line, parent, compiler)\<close>.\<close>

definition InnerTxnFieldSetter_init ::
  "(string \<Rightarrow> expr option) \<Rightarrow> nat \<Rightarrow> string \<Rightarrow> error + leaf" where
  "InnerTxnFieldSetter_init parse_expression line_no line =
     (case InnerTxnFieldSetter_pattern line of
        None \<Rightarrow> Inl (pattern_error InnerTxnFieldSetter_pattern_text ''InnerTxnFieldSetter'' line)
      | Some (field_name, index, expression) \<Rightarrow>
          (case parse_expression expression of
             None \<Rightarrow> Inl (expression_error expression line_no)
           | Some e \<Rightarrow> Inr (InnerTxnFieldSetter line_no line field_name index e)))"

subsection \<open>Conditional indices and labels\<close>

text \<open>
  \<^verbatim>\<open>For_Statement.__init__\<close> (lines 1533--1544): the node takes the compiler's
  \<^verbatim>\<open>conditional_count\<close> as its index and increments the counter.
\<close>

definition For_Statement_init :: "nat \<Rightarrow> string \<Rightarrow> expr \<Rightarrow> expr \<Rightarrow> state \<Rightarrow> node \<times> state" where
  "For_Statement_init line_no line start end st =
     (let conditional_index = conditional_count st
      in (For_Statement line_no line start end
            (''l'' @ str_nat conditional_index @ ''_for'')
            (''l'' @ str_nat conditional_index @ ''_end'') [],
          st\<lparr>conditional_count := conditional_count st + 1\<rparr>))"

text \<open>\<^verbatim>\<open>add_child\<close> for a node with a body: the child is appended to \<^verbatim>\<open>child_nodes\<close>.\<close>

fun add_child :: "node \<Rightarrow> node \<Rightarrow> node" where
  "add_child (Program child_nodes flag_var) n = Program (child_nodes @ [n]) flag_var"
| "add_child (Block line_no line name label child_nodes) n =
     Block line_no line name label (child_nodes @ [n])"
| "add_child (InnerTxn line_no line child_nodes) n = InnerTxn line_no line (child_nodes @ [n])"
| "add_child (InnerGroup line_no line child_nodes) n =
     InnerGroup line_no line (child_nodes @ [n])"
| "add_child (IfThen line_no line label next_label child_nodes) n =
     IfThen line_no line label next_label (child_nodes @ [n])"
| "add_child (Elif line_no line modifier condition label next_label child_nodes) n =
     Elif line_no line modifier condition label next_label (child_nodes @ [n])"
| "add_child (Else line_no line label next_label child_nodes) n =
     Else line_no line label next_label (child_nodes @ [n])"
| "add_child (WhileStatement line_no line modifier condition start_label end_label
       child_nodes) n =
     WhileStatement line_no line modifier condition start_label end_label (child_nodes @ [n])"
| "add_child (ForStatement line_no line var_name slot start end start_label end_label
       child_nodes) n =
     ForStatement line_no line var_name slot start end start_label end_label
       (child_nodes @ [n])"
| "add_child (For_Statement line_no line start end start_label end_label child_nodes) n =
     For_Statement line_no line start end start_label end_label (child_nodes @ [n])"
| "add_child (Func line_no line label args returns child_nodes) n =
     Func line_no line label args returns (child_nodes @ [n])"
| "add_child (StructDefinition line_no line name child_nodes) n =
     StructDefinition line_no line name (child_nodes @ [n])"
| "add_child m n = m"

section \<open>The process pass\<close>

subsection \<open>Program.process\<close>

text \<open>
  Modelled from the spec: \<^verbatim>\<open>has_child_node(InnerGroup)\<close> of \<^verbatim>\<open>BaseNode\<close>, which is not among
  the sources: the node contains an \<^verbatim>\<open>InnerGroup\<close> (spec 4.2, ``if the program contains
  an InnerGroup'').
\<close>

fun has_child_node_InnerGroup :: "node \<Rightarrow> bool"
and any_InnerGroup :: "node list \<Rightarrow> bool"
where
  "has_child_node_InnerGroup (Program child_nodes flag_var) = any_InnerGroup child_nodes"
| "has_child_node_InnerGroup (Leaf l) = False"
| "has_child_node_InnerGroup (Block line_no line name label child_nodes) =
     any_InnerGroup child_nodes"
| "has_child_node_InnerGroup (InnerTxn line_no line child_nodes) = any_InnerGroup child_nodes"
| "has_child_node_InnerGroup (InnerGroup line_no line child_nodes) =
     any_InnerGroup child_nodes"
| "has_child_node_InnerGroup (IfThen line_no line label next_label child_nodes) =
     any_InnerGroup child_nodes"
| "has_child_node_InnerGroup (Elif line_no line modifier condition label next_label
       child_nodes) = any_InnerGroup child_nodes"
| "has_child_node_InnerGroup (Else line_no line label next_label child_nodes) =
     any_InnerGroup child_nodes"
| "has_child_node_InnerGroup (IfStatement line_no line modifier condition conditional_index
       next_label end_label if_then elifs else_branch) =
     (any_InnerGroup [if_then] \<or> any_InnerGroup elifs
      \<or> (case else_branch of None \<Rightarrow> False | Some e \<Rightarrow> any_InnerGroup [e]))"
| "has_child_node_InnerGroup (WhileStatement line_no line modifier condition start_label
       end_label child_nodes) = any_InnerGroup child_nodes"
| "has_child_node_InnerGroup (ForStatement line_no line var_name slot start end start_label
       end_label child_nodes) = any_InnerGroup child_nodes"
| "has_child_node_InnerGroup (For_Statement line_no line start end start_label end_label
       child_nodes) = any_InnerGroup child_nodes"
| "has_child_node_InnerGroup (Func line_no line label args returns child_nodes) =
     any_InnerGroup child_nodes"
| "has_child_node_InnerGroup (DecoratedFunc line_no line decorators func) =
     (any_InnerGroup decorators \<or> any_InnerGroup [func])"
| "has_child_node_InnerGroup (StructDefinition line_no line name child_nodes) =
     any_InnerGroup child_nodes"
| "any_InnerGroup [] = False"
| "any_InnerGroup (n # ns) =
     ((case n of InnerGroup line_no line child_nodes \<Rightarrow> True | _ \<Rightarrow> False)
      \<or> has_child_node_InnerGroup n \<or> any_InnerGroup ns)"

text \<open>
  \<^verbatim>\<open>Program.process\<close> after the loop over the children (lines 313--322): the macro is
  switched on when the flag was left unset and the program has an inner group, and
  with the macro on the variable \<^verbatim>\<open>inner_group_flag\<close> is declared at slot
  \<^verbatim>\<open>max_slot + 1\<close>.
\<close>

fun Program_process :: "node \<Rightarrow> state \<Rightarrow> node \<times> state" where
  "Program_process (Program child_nodes flag_var) st =
     (let st1 = (if use_inner_txns_macro st = None
                    \<and> has_child_node_InnerGroup (Program child_nodes flag_var)
                 then st\<lparr>use_inner_txns_macro := Some True\<rparr> else st)
      in if use_inner_txns_macro st1 = Some True then
           (let scratch_slot = max_slot st1 + 1
            in (Program child_nodes (Some scratch_slot),
                st1\<lparr>max_slot := max (max_slot st1) scratch_slot\<rparr>))
         else (Program child_nodes flag_var, st1))"
| "Program_process n st = (n, st)"

text \<open>A compiler that has set nothing yet and a writer that has written nothing.\<close>

definition initial_state :: state where
  "initial_state =
     \<lparr>use_inner_txns_macro = None, max_slot = 0, conditional_count = 0,
      writer_level = 0, writer_output = []\<rparr>"

text \<open>
  Modelled from the spec: the driver runs \<^verbatim>\<open>process\<close> and then \<^verbatim>\<open>write_teal\<close> on the program
  the build pass returned (spec 2, ``orchestrates the three passes'').
\<close>

definition compile_program :: "node \<Rightarrow> state \<Rightarrow> error + state" where
  "compile_program program st =
     (case Program_process program st of (program1, st1) \<Rightarrow> write_teal program1 st1)"

subsection \<open>Program.consume and Block.consume\<close>

text \<open>
  \<^verbatim>\<open>Program.consume\<close> (lines 273--307) and \<^verbatim>\<open>Block.consume\<close> (lines 669--701) read one
  statement after the other with \<^verbatim>\<open>n = Statement.consume(compiler, node)\<close> and check each
  \<^verbatim>\<open>n\<close> against the exit statement seen so far. The loops are followed here on the
  sequence of statements they read: a \<open>source\<close> is either a statement other than a block,
  given as the node \<^verbatim>\<open>Statement.consume\<close> returns for it, or a block, given by its opening
  line (line number, line, name, label), the sources up to its \<^verbatim>\<open>end\<close> and the line number of
  that \<^verbatim>\<open>end\<close>. For a block \<^verbatim>\<open>Statement.consume\<close> calls \<^verbatim>\<open>Block.consume\<close>.
\<close>

datatype source =
    Statement node
  | BlockSource nat string string string "source list" nat

text \<open>\<^verbatim>\<open>is_exit_statement(node)\<close> (lines 2062--2064).\<close>

definition is_exit_statement :: "node \<Rightarrow> bool" where
  "is_exit_statement n =
     (case n of
        Leaf l \<Rightarrow>
          (case l of
             Exit line_no line expression \<Rightarrow> True
           | Switch line_no line expression options else_target \<Rightarrow> True
           | Jump line_no line block_name label \<Rightarrow> True
           | Router line_no line routes \<Rightarrow> True
           | _ \<Rightarrow> False)
      | _ \<Rightarrow> False)"

text \<open>The \<^verbatim>\<open>isinstance\<close> tests of the two loops.\<close>

definition isinstance_Func :: "node \<Rightarrow> bool" where
  "isinstance_Func n =
     (case n of Func line_no line label args returns child_nodes \<Rightarrow> True | _ \<Rightarrow> False)"

definition isinstance_DecoratedFunc :: "node \<Rightarrow> bool" where
  "isinstance_DecoratedFunc n =
     (case n of DecoratedFunc line_no line decorators func \<Rightarrow> True | _ \<Rightarrow> False)"

definition isinstance_Block :: "node \<Rightarrow> bool" where
  "isinstance_Block n =
     (case n of Block line_no line name label child_nodes \<Rightarrow> True | _ \<Rightarrow> False)"

definition isinstance_StructDefinition :: "node \<Rightarrow> bool" where
  "isinstance_StructDefinition n =
     (case n of StructDefinition line_no line name child_nodes \<Rightarrow> True | _ \<Rightarrow> False)"

definition isinstance_Comment :: "node \<Rightarrow> bool" where
  "isinstance_Comment n =
     (case n of
        Leaf l \<Rightarrow> (case l of Comment line_no line comment \<Rightarrow> True | _ \<Rightarrow> False)
      | _ \<Rightarrow> False)"

definition isinstance_Blank :: "node \<Rightarrow> bool" where
  "isinstance_Blank n =
     (case n of
        Leaf l \<Rightarrow> (case l of Blank line_no line \<Rightarrow> True | _ \<Rightarrow> False)
      | _ \<Rightarrow> False)"

definition isinstance_TealVersion :: "node \<Rightarrow> bool" where
  "isinstance_TealVersion n =
     (case n of
        Leaf l \<Rightarrow> (case l of TealVersion line_no line version \<Rightarrow> True | _ \<Rightarrow> False)
      | _ \<Rightarrow> False)"

text \<open>
  \<^verbatim>\<open>isinstance(node, Statement)\<close>: every class but \<^verbatim>\<open>Program\<close>, the branches of an \<^verbatim>\<open>if\<close> and
  \<^verbatim>\<open>Decorator\<close>, which derive from \<^verbatim>\<open>Node\<close> directly.
\<close>

definition isinstance_Statement :: "node \<Rightarrow> bool" where
  "isinstance_Statement n =
     (case n of
        Program child_nodes flag_var \<Rightarrow> False
      | IfThen line_no line label next_label child_nodes \<Rightarrow> False
      | Elif line_no line modifier condition label next_label child_nodes \<Rightarrow> False
      | Else line_no line label next_label child_nodes \<Rightarrow> False
      | Leaf l \<Rightarrow> (case l of Decorator line_no line name params \<Rightarrow> False | _ \<Rightarrow> True)
      | _ \<Rightarrow> True)"

text \<open>\<^verbatim>\<open>Node.add_child\<close> (lines 105--114) of a \<^verbatim>\<open>Program\<close> or a \<^verbatim>\<open>Block\<close>, whose
  \<^verbatim>\<open>possible_child_nodes\<close> is \<^verbatim>\<open>[Statement]\<close>.\<close>

definition add_statement :: "node \<Rightarrow> node \<Rightarrow> error + node" where
  "add_statement parent n =
     (if \<not> isinstance_Statement n then
        Inl (ParseError (''Unexpected child node '' @ node_repr n @ '' in '' @ node_repr parent
               @ '' at line '' @ str_nat (node_line_no parent) @ ''!''))
      else Inr (add_child parent n))"

text \<open>The check of \<^verbatim>\<open>Program.consume\<close> on a statement (lines 291--302); \<open>None\<close> when it
  passes.\<close>

definition Program_check :: "node option \<Rightarrow> node \<Rightarrow> error option" where
  "Program_check exit_statement n =
     (case exit_statement of
        Some x \<Rightarrow>
          (if \<not> (isinstance_Func n \<or> isinstance_DecoratedFunc n \<or> isinstance_Block n
                  \<or> isinstance_Comment n \<or> isinstance_Blank n) then
             Some (ParseError (''Unexpected statement at line '' @ str_nat (node_line_no n)
                     @ ''. Only Block and Function definitions should occure after a ''
                     @ node_repr x @ ''.''))
           else None)
      | None \<Rightarrow>
          (if isinstance_Func n \<or> isinstance_DecoratedFunc n \<or> isinstance_Block n then
             Some (ParseError (''Unexpected '' @ node_repr n @ '' definition at line ''
                     @ str_nat (node_line_no n)
                     @ ''. Block and Function definitions must occur after an exit statement (e.g Exit, switch, jump, router).''))
           else None))"

text \<open>The check of \<^verbatim>\<open>Block.consume\<close> on a statement (lines 685--696).\<close>

definition Block_check :: "node option \<Rightarrow> node \<Rightarrow> error option" where
  "Block_check exit_statement n =
     (case exit_statement of
        Some x \<Rightarrow>
          (if \<not> (isinstance_Func n \<or> isinstance_Block n
                  \<or> isinstance_Comment n \<or> isinstance_Blank n) then
             Some (ParseError (''Unexpected statement at line '' @ str_nat (node_line_no n)
                     @ ''. Only Block and Function definitions should occure after a ''
                     @ node_repr x @ ''.''))
           else None)
      | None \<Rightarrow>
          (if isinstance_Func n \<or> isinstance_Block n then
             Some (ParseError (''Unexpected '' @ node_repr n @ '' definition at line ''
                     @ str_nat (node_line_no n)
                     @ ''. Block and Function definitions must occur after an exit statement (e.g. exit, switch, jump).''))
           else None))"

text \<open>
  \<open>Block_consume_loop\<close> is the \<^verbatim>\<open>while True\<close> loop of \<^verbatim>\<open>Block.consume\<close>: \<open>block\<close> is the
  block built so far and the list holds the statements still to read before \<^verbatim>\<open>end\<close>.
\<close>

fun Statement_consume :: "source \<Rightarrow> error + node"
and Block_consume_loop :: "node \<Rightarrow> node option \<Rightarrow> source list \<Rightarrow> nat \<Rightarrow> error + node"
where
  "Statement_consume (Statement n) = Inr n"
| "Statement_consume (BlockSource line_no line name label body end_line_no) =
     Block_consume_loop (Block line_no line name label []) None body end_line_no"
| "Block_consume_loop block exit_statement [] end_line_no =
     (if exit_statement = None then
        Inl (ParseError (''Unexpected end of block at line '' @ str_nat end_line_no
               @ ''. Blocks must end with an exit statement (e.g. exit, switch, jump)''))
      else Inr block)"
| "Block_consume_loop block exit_statement (s # rest) end_line_no =
     (case Statement_consume s of
        Inl e \<Rightarrow> Inl e
      | Inr n \<Rightarrow>
          (case Block_check exit_statement n of
             Some e \<Rightarrow> Inl e
           | None \<Rightarrow>
               (case add_statement block n of
                  Inl e \<Rightarrow> Inl e
                | Inr block1 \<Rightarrow>
                    Block_consume_loop block1
                      (if is_exit_statement n then Some n else exit_statement)
                      rest end_line_no)))"

text \<open>The \<^verbatim>\<open>while True\<close> loop of \<^verbatim>\<open>Program.consume\<close>, which ends when no line is left.\<close>

fun Program_consume_loop :: "node \<Rightarrow> bool \<Rightarrow> node option \<Rightarrow> source list \<Rightarrow> error + node" where
  "Program_consume_loop node expect_struct_definition exit_statement [] = Inr node"
| "Program_consume_loop node expect_struct_definition exit_statement (s # rest) =
     (case Statement_consume s of
        Inl e \<Rightarrow> Inl e
      | Inr n \<Rightarrow>
          if \<not> expect_struct_definition \<and> isinstance_StructDefinition n then
            Inl (ParseError (''Unexpected Struct definition at line '' @ str_nat (node_line_no n)
                   @ ''.Struct definitions should be at the top of the file and only be preceeded by comments.''))
          else
            (case Program_check exit_statement n of
               Some e \<Rightarrow> Inl e
             | None \<Rightarrow>
                 (case add_statement node n of
                    Inl e \<Rightarrow> Inl e
                  | Inr node1 \<Rightarrow>
                      Program_consume_loop node1
                        (if \<not> (isinstance_TealVersion n \<or> isinstance_Blank n
                                \<or> isinstance_Comment n \<or> isinstance_StructDefinition n)
                         then False else expect_struct_definition)
                        (if is_exit_statement n then Some n else exit_statement)
                        rest)))"

definition Program_consume :: "source list \<Rightarrow> error + node" where
  "Program_consume sources = Program_consume_loop (Program [] None) True None sources"

subsection \<open>InnerTxn.process\<close>

text \<open>\<^verbatim>\<open>int(s)\<close> for a string of decimal digits.\<close>

definition int_of_digits :: "string \<Rightarrow> nat" where
  "int_of_digits s = fold (\<lambda>c n. 10 * n + (of_char c - 48)) s 0"

text \<open>
  \<^verbatim>\<open>array_fields\<close> is a \<^verbatim>\<open>defaultdict(list)\<close>, kept as an association list in insertion
  order: reading a missing key inserts the empty list.
\<close>

definition array_fields_get :: "(string \<times> leaf list) list \<Rightarrow> string \<Rightarrow> leaf list" where
  "array_fields_get d k = (case map_of d k of None \<Rightarrow> [] | Some v \<Rightarrow> v)"

definition array_fields_touch :: "(string \<times> leaf list) list \<Rightarrow> string \<Rightarrow> (string \<times> leaf list) list" where
  "array_fields_touch d k = (case map_of d k of None \<Rightarrow> d @ [(k, [])] | Some v \<Rightarrow> d)"

definition array_fields_append ::
  "(string \<times> leaf list) list \<Rightarrow> string \<Rightarrow> leaf \<Rightarrow> (string \<times> leaf list) list" where
  "array_fields_append d k x = map (\<lambda>(k1, v). if k1 = k then (k1, v @ [x]) else (k1, v)) d"

text \<open>The first loop of \<^verbatim>\<open>InnerTxn.process\<close> (lines 1019--1039); \<open>compiler_line_no\<close> is
  \<^verbatim>\<open>self.compiler.line_no\<close>, which the message prints.\<close>

fun InnerTxn_process_loop ::
  "nat \<Rightarrow> (string \<times> leaf list) list \<Rightarrow> node list \<Rightarrow> error + (string \<times> leaf list) list" where
  "InnerTxn_process_loop compiler_line_no array_fields [] = Inr array_fields"
| "InnerTxn_process_loop compiler_line_no array_fields (node # rest) =
     (case node of
        Leaf l \<Rightarrow>
          (case l of
             InnerTxnFieldSetter line_no line field_name index expression \<Rightarrow>
               (case index of
                  Some idx \<Rightarrow>
                    (let i = int_of_digits idx;
                         d = array_fields_touch array_fields field_name;
                         n = length (array_fields_get d field_name)
                     in if n = i then
                          InnerTxn_process_loop compiler_line_no
                            (array_fields_append d field_name l) rest
                        else
                          Inl (ParseError (''Inccorrect field array index '' @ str_nat i
                                 @ '' (expected '' @ str_nat n @ '') at line ''
                                 @ str_nat compiler_line_no @ ''!'')))
                | None \<Rightarrow>
                    (case expr_process expression of
                       Some e \<Rightarrow> Inl e
                     | None \<Rightarrow> InnerTxn_process_loop compiler_line_no array_fields rest))
           | _ \<Rightarrow> Inl (AttributeError ''index''))
      | _ \<Rightarrow> Inl (AttributeError ''index''))"

text \<open>\<^verbatim>\<open>n.process()\<close> for each expression of a list, in order: the first error, if any.\<close>

fun process_all :: "expr list \<Rightarrow> error option" where
  "process_all [] = None"
| "process_all (e # es) = (case expr_process e of Some err \<Rightarrow> Some err | None \<Rightarrow> process_all es)"

definition setter_expressions :: "leaf list \<Rightarrow> expr list" where
  "setter_expressions ls =
     concat (map (\<lambda>l. case l of
                         InnerTxnFieldSetter line_no line field_name index expression \<Rightarrow>
                           [expression]
                       | _ \<Rightarrow> []) ls)"

text \<open>\<^verbatim>\<open>InnerTxn.process\<close> (lines 1015--1043); the result is \<^verbatim>\<open>self.array_fields\<close>.\<close>

definition InnerTxn_process :: "nat \<Rightarrow> node \<Rightarrow> error + (string \<times> leaf list) list" where
  "InnerTxn_process compiler_line_no node =
     (case node of
        InnerTxn line_no line child_nodes \<Rightarrow>
          (case InnerTxn_process_loop compiler_line_no [] child_nodes of
             Inl e \<Rightarrow> Inl e
           | Inr array_fields \<Rightarrow>
               (case process_all (concat (map (\<lambda>(k, a). setter_expressions a) array_fields)) of
                  Some e \<Rightarrow> Inl e
                | None \<Rightarrow> Inr array_fields))
      | _ \<Rightarrow> Inl (AttributeError ''child_nodes''))"

subsection \<open>VarDeclaration.process and StructOrBoxAssignment.process\<close>

text \<open>\<^verbatim>\<open>f"{t.size}"\<close>: the digits of the size, or \<^verbatim>\<open>None\<close>.\<close>

definition str_size :: "nat option \<Rightarrow> string" where
  "str_size sz = (case sz of None \<Rightarrow> ''None'' | Some n \<Rightarrow> str_nat n)"

text \<open>
  \<^verbatim>\<open>VarDeclaration.process\<close> (lines 567--579). \<^verbatim>\<open>declare_scratch_var\<close> belongs to
  \<^verbatim>\<open>BaseNode\<close> and is a parameter here: it returns the type and the slot of the variable
  it declares, or raises. The result is the node with \<^verbatim>\<open>var.scratch_slot\<close> filled in.
\<close>

definition VarDeclaration_process ::
  "(ty \<Rightarrow> ty \<Rightarrow> bool) \<Rightarrow> (ty \<Rightarrow> ty \<Rightarrow> bool) \<Rightarrow> (string \<Rightarrow> string \<Rightarrow> error + ty \<times> nat) \<Rightarrow>
   nat \<Rightarrow> string \<Rightarrow> string \<Rightarrow> string \<Rightarrow> expr option \<Rightarrow> error + leaf" where
  "VarDeclaration_process can_hold can_hold_with_cast declare_scratch_var
       line_no line type_name name expression =
     (case declare_scratch_var name type_name of
        Inl err \<Rightarrow> Inl err
      | Inr (tealish_type, scratch_slot) \<Rightarrow>
          (case expression of
             None \<Rightarrow> Inr (VarDeclaration line_no line type_name name scratch_slot None)
           | Some e \<Rightarrow>
               (case expr_process e of
                  Some err \<Rightarrow> Inl err
                | None \<Rightarrow>
                    if \<not> can_hold tealish_type (expr_type e) then
                      (let message = ''Incorrect type for assignment. Expected '' @ type_name
                             @ '', got '' @ ty_name (expr_type e) @ '' at line ''
                             @ str_nat line_no @ ''.'';
                           message =
                             (if can_hold_with_cast tealish_type (expr_type e) then
                                (let message = message @ [newline]
                                       @ ''Perhaps Cast or padding is required? '';
                                     message = message @ [newline] @ ''- '' @ line;
                                     message = message @ [newline] @ ''+ '' @ type_name @ '' ''
                                       @ name @ '' = Cast('' @ expr_tealish e @ '', ''
                                       @ type_name @ '')''
                                 in if \<not> (isinstance_StructType tealish_type
                                           \<or> isinstance_IntType tealish_type) then
                                      message @ [newline] @ ''+ '' @ type_name @ '' '' @ name
                                        @ '' = Rpad('' @ expr_tealish e @ '', ''
                                        @ str_size (ty_size tealish_type) @ '')''
                                    else message)
                              else message)
                       in Inl (CompileError message))
                    else Inr (VarDeclaration line_no line type_name name scratch_slot (Some e)))))"

text \<open>
  \<^verbatim>\<open>StructOrBoxAssignment.process\<close> (lines 1898--1928). \<open>var\<close> is what \<^verbatim>\<open>get_var\<close> returns
  for the name: the type and the slot of the variable, or \<open>None\<close>. The pattern makes the
  expression optional, and \<^verbatim>\<open>self.expression.process()\<close> is called without a test.
\<close>

definition StructOrBoxAssignment_process ::
  "(ty \<Rightarrow> ty \<Rightarrow> bool) \<Rightarrow> (ty \<Rightarrow> ty \<Rightarrow> bool) \<Rightarrow> (ty \<times> nat) option \<Rightarrow>
   nat \<Rightarrow> string \<Rightarrow> string \<Rightarrow> string \<Rightarrow> expr option \<Rightarrow> error + leaf" where
  "StructOrBoxAssignment_process can_hold can_hold_with_cast var
       line_no line name field_name expression =
     (case var of
        None \<Rightarrow> Inl (CompileError (''Could not find struct with name: '' @ name))
      | Some (tealish_type, scratch_slot) \<Rightarrow>
          if \<not> (isinstance_StructType tealish_type \<or> isinstance_BoxType tealish_type) then
            Inl (CompileError (name @ '' is not a struct or Box reference''))
          else
            (case map_of (ty_fields tealish_type) field_name of
               None \<Rightarrow> Inl (KeyError field_name)
             | Some struct_field \<Rightarrow>
                 (let data_type = field_tealish_type struct_field
                  in case expression of
                       None \<Rightarrow> Inl (AttributeError ''process'')
                     | Some e \<Rightarrow>
                         (case expr_process e of
                            Some err \<Rightarrow> Inl err
                          | None \<Rightarrow>
                              if \<not> can_hold data_type (expr_type e) then
                                (let message =
                                       ''Incorrect type for struct field assignment. Expected ''
                                       @ ty_name data_type @ '', got '' @ ty_name (expr_type e)
                                       @ '' at line '' @ str_nat line_no @ ''.'';
                                     message =
                                       (if can_hold_with_cast data_type (expr_type e) then
                                          (let message = message @ [newline]
                                                 @ ''Perhaps Cast or padding is required? '';
                                               message = message @ [newline] @ ''- '' @ line;
                                               message = message @ [newline] @ ''+ '' @ name
                                                 @ ''.'' @ field_name @ '' = Cast(''
                                                 @ expr_tealish e @ '', '' @ ty_name data_type
                                                 @ '')''
                                           in if \<not> (isinstance_StructType data_type
                                                     \<or> isinstance_IntType data_type) then
                                                message @ [newline] @ ''+ '' @ name @ ''.''
                                                  @ field_name @ '' = Rpad('' @ expr_tealish e
                                                  @ '', '' @ str_size (ty_size data_type)
                                                  @ '')''
                                              else message)
                                        else message)
                                 in Inl (CompileError message))
                              else
                                Inr (StructOrBoxAssignment line_no line name field_name
                                       tealish_type data_type (field_offset struct_field)
                                       scratch_slot e)))))"

subsection \<open>Return\<close>

text \<open>
  \<^verbatim>\<open>return ?(?P<args>.*?)?$\<close> (line 1681): the literal, a blank if there is one, and the
  shortest run of characters after which the text ends; \<^verbatim>\<open>$\<close> also matches before a
  newline that ends the text. Leaving the blank to the group cannot make a text match
  that does not match with the blank taken. The result is the group \<open>args\<close>.
\<close>

definition Return_pattern :: "string \<Rightarrow> string option" where
  "Return_pattern line =
     (case literal ''return'' line of
        None \<Rightarrow> None
      | Some r \<Rightarrow>
          (let r1 = (case r of c # cs \<Rightarrow> if c = CHR '' '' then cs else r | [] \<Rightarrow> r);
               t = (if r1 \<noteq> [] \<and> last r1 = newline then butlast r1 else r1)
           in if list_all dot t then Some t else None))"

text \<open>
  Modelled from the spec: \<^verbatim>\<open>find_parent(Func)\<close> of \<^verbatim>\<open>BaseNode\<close>, which is not among the
  sources, follows the parent pointers upwards to the first \<^verbatim>\<open>Func\<close> (spec 7, ``parent
  pointers and upward lookups: enclosing-func discovery''). \<open>ancestors\<close> is the chain of
  parents of the node, the nearest first.
\<close>

fun find_parent_Func :: "node list \<Rightarrow> node option" where
  "find_parent_Func [] = None"
| "find_parent_Func (p # ps) = (if isinstance_Func p then Some p else find_parent_Func ps)"

text \<open>The attribute \<^verbatim>\<open>returns\<close> of a \<^verbatim>\<open>Func\<close>.\<close>

fun Func_returns :: "node \<Rightarrow> ty list" where
  "Func_returns (Func line_no line label args returns child_nodes) = returns"
| "Func_returns n = []"

text \<open>
  The loop of \<^verbatim>\<open>Return.__init__\<close> over the pieces of \<^verbatim>\<open>split_return_args\<close> (lines
  1699--1702). \<^verbatim>\<open>GenericExpression.parse\<close> (lines 213--221) turns every failure of the
  parser into a \<open>ParseError\<close>.
\<close>

fun parse_args :: "(string \<Rightarrow> expr option) \<Rightarrow> string list \<Rightarrow> error + expr list" where
  "parse_args parse_expression [] = Inr []"
| "parse_args parse_expression (a # rest) =
     (let arg = strip a
      in case parse_expression arg of
           None \<Rightarrow> Inl (ParseError (''Cannot parse '' @ [dquote] @ arg @ [dquote] @ '' as Expression''))
         | Some node \<Rightarrow>
             (case parse_args parse_expression rest of
                Inl e \<Rightarrow> Inl e
              | Inr nodes \<Rightarrow> Inr (node # nodes)))"

text \<open>The text of the pattern of \<^verbatim>\<open>Return\<close> (line 1681).\<close>

definition Return_pattern_text :: string where
  "Return_pattern_text = ''return ?(?P<args>.*?)?$''"

text \<open>\<^verbatim>\<open>Return(line, parent, compiler)\<close> (lines 1685--1706).\<close>

definition Return_init ::
  "(string \<Rightarrow> expr option) \<Rightarrow> node list \<Rightarrow> nat \<Rightarrow> string \<Rightarrow> error + leaf" where
  "Return_init parse_expression ancestors line_no line =
     (case Return_pattern line of
        None \<Rightarrow> Inl (pattern_error Return_pattern_text ''Return'' line)
      | Some args \<Rightarrow>
          (case find_parent_Func ancestors of
             None \<Rightarrow>
               Inl (ParseError ([dquote] @ ''return'' @ [dquote]
                      @ '' should only be used in a function! Line '' @ str_nat line_no))
           | Some func \<Rightarrow>
               (case (if args \<noteq> [] then parse_args parse_expression (split_return_args args)
                      else Inr []) of
                  Inl e \<Rightarrow> Inl e
                | Inr args_expressions \<Rightarrow>
                    if length args_expressions \<noteq> length (Func_returns func) then
                      Inl (ParseError (''Incorrect number of returns. Line '' @ str_nat line_no))
                    else Inr (Return line_no line args args_expressions (Func_returns func)))))"

text \<open>
  The second loop of \<^verbatim>\<open>Return.process\<close> (lines 1710--1717), \<open>i\<close> the index of
  \<^verbatim>\<open>enumerate\<close>; \<^verbatim>\<open>self.args_expressions[i]\<close> raises when the list is too short.
\<close>

fun Return_check :: "(ty \<Rightarrow> ty \<Rightarrow> bool) \<Rightarrow> expr list \<Rightarrow> nat \<Rightarrow> ty list \<Rightarrow> error option" where
  "Return_check can_hold args_expressions i [] = None"
| "Return_check can_hold args_expressions i (r # rs) =
     (if i < length args_expressions then
        (let return_expression = args_expressions ! i
         in if \<not> can_hold r (expr_type return_expression) then
              Some (CompileError (''Incorrect type for return value. '' @ ''Expected ''
                      @ ty_name r @ '', got '' @ ty_name (expr_type return_expression)))
            else Return_check can_hold args_expressions (Suc i) rs)
      else Some (IndexError ''list index out of range''))"

text \<open>\<^verbatim>\<open>Return.process\<close> (lines 1708--1717); \<^verbatim>\<open>self.nodes\<close> is the list of expressions
  reversed.\<close>

fun Return_process :: "(ty \<Rightarrow> ty \<Rightarrow> bool) \<Rightarrow> leaf \<Rightarrow> error option" where
  "Return_process can_hold (Return line_no line args args_expressions returns) =
     (case process_all (rev args_expressions) of
        Some e \<Rightarrow> Some e
      | None \<Rightarrow> Return_check can_hold args_expressions 0 returns)"
| "Return_process can_hold l = None"

text \<open>
  Modelled from the spec: the driver builds the node and then processes it (spec 2,
  ``orchestrates the three passes''); the statement is accepted when neither pass raises.
\<close>

definition Return_compile ::
  "(string \<Rightarrow> expr option) \<Rightarrow> (ty \<Rightarrow> ty \<Rightarrow> bool) \<Rightarrow> node list \<Rightarrow> nat \<Rightarrow> string \<Rightarrow> error + leaf" where
  "Return_compile parse_expression can_hold ancestors line_no line =
     (case Return_init parse_expression ancestors line_no line of
        Inl e \<Rightarrow> Inl e
      | Inr l \<Rightarrow> (case Return_process can_hold l of Some e \<Rightarrow> Inl e | None \<Rightarrow> Inr l))"

subsection \<open>IfStatement: the build pass and the labels\<close>

text \<open>The attributes \<^verbatim>\<open>label\<close> and \<^verbatim>\<open>next_label\<close> of the branches of an \<^verbatim>\<open>if\<close>, and the tests
  \<^verbatim>\<open>isinstance(node, IfThen)\<close>, \<^verbatim>\<open>isinstance(node, Elif)\<close> and \<^verbatim>\<open>isinstance(node, Else)\<close>.\<close>

fun set_label :: "string \<Rightarrow> node \<Rightarrow> node" where
  "set_label l (IfThen line_no line label next_label child_nodes) =
     IfThen line_no line l next_label child_nodes"
| "set_label l (Elif line_no line modifier condition label next_label child_nodes) =
     Elif line_no line modifier condition l next_label child_nodes"
| "set_label l (Else line_no line label next_label child_nodes) =
     Else line_no line l next_label child_nodes"
| "set_label l n = n"

fun set_next_label :: "string \<Rightarrow> node \<Rightarrow> node" where
  "set_next_label l (IfThen line_no line label next_label child_nodes) =
     IfThen line_no line label l child_nodes"
| "set_next_label l (Elif line_no line modifier condition label next_label child_nodes) =
     Elif line_no line modifier condition label l child_nodes"
| "set_next_label l (Else line_no line label next_label child_nodes) =
     Else line_no line label l child_nodes"
| "set_next_label l n = n"

definition isinstance_IfThen :: "node \<Rightarrow> bool" where
  "isinstance_IfThen n =
     (case n of IfThen line_no line label next_label child_nodes \<Rightarrow> True | _ \<Rightarrow> False)"

definition isinstance_Elif :: "node \<Rightarrow> bool" where
  "isinstance_Elif n =
     (case n of
        Elif line_no line modifier condition label next_label child_nodes \<Rightarrow> True
      | _ \<Rightarrow> False)"

definition isinstance_Else :: "node \<Rightarrow> bool" where
  "isinstance_Else n =
     (case n of Else line_no line label next_label child_nodes \<Rightarrow> True | _ \<Rightarrow> False)"

text \<open>The test \<^verbatim>\<open>isinstance(node, IfThen) or isinstance(node, Elif) or isinstance(node, Else)\<close>
  that \<^verbatim>\<open>IfStatement.process\<close> makes before it reads or sets a label.\<close>

definition isinstance_branch :: "node \<Rightarrow> bool" where
  "isinstance_branch n = (isinstance_IfThen n \<or> isinstance_Elif n \<or> isinstance_Else n)"





text \<open>
  The first loop of \<^verbatim>\<open>IfStatement.process\<close> (lines 1289--1309) and the assignment to the
  last child (lines 1321--1327): a child that is a branch takes the label of the child
  after it as its \<^verbatim>\<open>next_label\<close> if that one is a branch too, and the last child the end
  label.
\<close>

fun set_next_labels :: "string \<Rightarrow> node list \<Rightarrow> node list" where
  "set_next_labels end_label [] = []"
| "set_next_labels end_label [n] =
     [if isinstance_branch n then set_next_label end_label n else n]"
| "set_next_labels end_label (n # m # ns) =
     (if isinstance_branch n \<and> isinstance_branch m then set_next_label (node_label m) n
      else n) # set_next_labels end_label (m # ns)"


section \<open>The claims in the words of the spec\<close>

subsection \<open>The router\<close>

text \<open>The instructions that encode the return values, as the claim lists them.\<close>

definition return_encoding :: "ty list \<Rightarrow> string list" where
  "return_encoding returns =
     (if returns = [] then []
      else concat (map (\<lambda>(i, r). (if 0 < i then [''uncover '' @ str_nat i @ '' // '' @ ty_name r]
                                     else [])
                                    @ (if isinstance_IntType r then [''itob''] else []))
                     (enumerate 0 returns))
           @ replicate (length returns - 1) ''concat''
           @ [''pushbytes 0x151f7c75; swap; concat; log // arc4 return log''])"

text \<open>A line that is a comment only.\<close>

definition is_comment :: "string \<Rightarrow> bool" where
  "is_comment l = startswith l ''//''"

definition instructions :: "string list \<Rightarrow> string list" where
  "instructions ls = filter (\<lambda>l. \<not> is_comment l) ls"

text \<open>
  What the claim says of the lines \<open>sec\<close> written for one route: the label, one line
  for the assertion on the completion, one line per argument, \<^verbatim>\<open>callsub\<close> to the label
  of the function, and after it, comments apart, the encoding of the return values and
  \<^verbatim>\<open>pushint 1; return\<close>.
\<close>

definition route_section :: "route \<Rightarrow> string list \<Rightarrow> bool" where
  "route_section r sec =
     (let n = length (arg_expressions r)
      in n + 3 \<le> length sec
         \<and> sec ! 0 = route_label r @ '':''
         \<and> take n (drop 2 sec) = map (\<lambda>e. join ''; '' (expr_teal e)) (arg_expressions r)
         \<and> sec ! (n + 2) = ''callsub '' @ func_label (route_func r)
         \<and> instructions (drop (n + 3) sec)
             = return_encoding (func_returns (route_func r)) @ [''pushint 1; return''])"

subsection \<open>Suggestions in an error message\<close>

text \<open>
  A suggestion is a line of the message of its own: \<^verbatim>\<open>+ \<close>, the left-hand side of the
  statement, \<^verbatim>\<open> = \<close> and the call of \<^verbatim>\<open>Cast\<close> or \<^verbatim>\<open>Rpad\<close> on the text of the expression.
\<close>

definition suggestion :: "string \<Rightarrow> string \<Rightarrow> string \<Rightarrow> string \<Rightarrow> string" where
  "suggestion target function tealish arg =
     ''+ '' @ target @ '' = '' @ function @ ''('' @ tealish @ '', '' @ arg @ '')''"

definition suggests :: "string \<Rightarrow> string \<Rightarrow> bool" where
  "suggests message l = (l \<in> set (splitlines message))"

definition one_line :: "string \<Rightarrow> bool" where
  "one_line s = (newline \<notin> set s)"

subsection \<open>Commas at the top level of a text\<close>

text \<open>
  The character at index \<open>i\<close> is inside a double-quoted segment when an odd number of
  double quotes comes before it. \<open>parentheses_balance s i\<close> is the number of opening
  parentheses before \<open>i\<close> minus the number of closing ones, counting those outside the quoted
  segments; it is negative when more were closed than opened. \<open>separator\<close> is the test of the
  loop of \<^verbatim>\<open>split_return_args\<close>: a comma outside the quoted segments where the balance is
  zero.
\<close>

definition in_quotes :: "string \<Rightarrow> nat \<Rightarrow> bool" where
  "in_quotes s i = odd (length (filter (\<lambda>c. c = dquote) (take i s)))"

definition parentheses_balance :: "string \<Rightarrow> nat \<Rightarrow> int" where
  "parentheses_balance s i =
     int (length (filter (\<lambda>j. s ! j = CHR ''('' \<and> \<not> in_quotes s j) [0..<i]))
     - int (length (filter (\<lambda>j. s ! j = CHR '')'' \<and> \<not> in_quotes s j) [0..<i]))"

definition separator :: "string \<Rightarrow> nat \<Rightarrow> bool" where
  "separator s i = (s ! i = CHR '','' \<and> \<not> in_quotes s i \<and> parentheses_balance s i = 0)"

definition separators :: "string \<Rightarrow> nat list" where
  "separators s = filter (separator s) [0..<length s]"

text \<open>The pieces of \<open>s\<close> from index \<open>start\<close> on, cut at the given indices, which are left
  out.\<close>

fun cut_from :: "nat \<Rightarrow> nat list \<Rightarrow> string \<Rightarrow> string list" where
  "cut_from start [] s = [drop start s]"
| "cut_from start (j # js) s = take (j - start) (drop start s) # cut_from (Suc j) js s"

text \<open>
  A closing parenthesis closes the parenthesis opened last that is still open, and closes
  nothing when none is open. \<open>open_parentheses s i\<close> is the number of parentheses open at
  index \<open>i\<close>, those inside the quoted segments left out; a character is inside parentheses
  when the number is positive. A top-level comma is a comma outside the quoted segments and
  outside parentheses.
\<close>

definition paren_step :: "char \<Rightarrow> bool \<times> nat \<Rightarrow> bool \<times> nat" where
  "paren_step c qn =
     (case qn of (q, n) \<Rightarrow>
        (let q1 = (if c = dquote then \<not> q else q)
         in (q1, if q1 then n
                 else if c = CHR ''('' then Suc n
                 else if c = CHR '')'' then n - 1
                 else n)))"

definition open_parentheses :: "string \<Rightarrow> nat \<Rightarrow> nat" where
  "open_parentheses s i = snd (fold paren_step (take i s) (False, 0))"

definition top_level_comma :: "string \<Rightarrow> nat \<Rightarrow> bool" where
  "top_level_comma s i = (s ! i = CHR '','' \<and> \<not> in_quotes s i \<and> open_parentheses s i = 0)"

definition top_level_commas :: "string \<Rightarrow> nat list" where
  "top_level_commas s = filter (top_level_comma s) [0..<length s]"

definition top_level_split :: "string \<Rightarrow> string list" where
  "top_level_split s = map strip (cut_from 0 (top_level_commas s) s)"

text \<open>No prefix of the text closes more parentheses than it opens.\<close>

definition well_nested :: "string \<Rightarrow> bool" where
  "well_nested s = list_all (\<lambda>i. 0 \<le> parentheses_balance s i) [0..<Suc (length s)]"

text \<open>
  The same pieces found in one pass over the text. \<open>next_quotes\<close> and \<open>next_parentheses\<close>
  are \<^verbatim>\<open>quotes\<close> and \<^verbatim>\<open>parentheses\<close> after the body of the loop of \<^verbatim>\<open>split_return_args\<close>
  has read the character \<open>c\<close>, and \<open>splits\<close> is the test that makes it return; \<open>cur\<close> is
  the piece read so far.
\<close>

definition next_quotes :: "bool \<Rightarrow> char \<Rightarrow> bool" where
  "next_quotes q c = (if c = dquote then \<not> q else q)"

definition next_parentheses :: "int \<Rightarrow> bool \<Rightarrow> char \<Rightarrow> int" where
  "next_parentheses p q c =
     (if next_quotes q c then p
      else (if c = CHR ''('' then p + 1 else p) - (if c = CHR '')'' then 1 else 0))"

definition splits :: "int \<Rightarrow> bool \<Rightarrow> char \<Rightarrow> bool" where
  "splits p q c = (\<not> next_quotes q c \<and> next_parentheses p q c = 0 \<and> c = CHR '','')"

fun pieces :: "int \<Rightarrow> bool \<Rightarrow> string \<Rightarrow> string \<Rightarrow> string list" where
  "pieces p q cur [] = [cur]"
| "pieces p q cur (c # cs) =
     (if splits p q c then cur # pieces 0 False [] cs
      else pieces (next_parentheses p q c) (next_quotes q c) (cur @ [c]) cs)"

subsection \<open>The emission of an if statement\<close>









subsection \<open>Steps that only append\<close>

text \<open>A step of the writer that leaves the lines written before it as they are.\<close>

definition appends :: "(state \<Rightarrow> error + state) \<Rightarrow> bool" where
  "appends f = (\<forall>st st'. f st = Inr st' \<longrightarrow> prefix (teal st) (teal st'))"

section \<open>Example inputs\<close>

text \<open>The type \<^verbatim>\<open>int\<close> (an \<open>IntType\<close> of size 8) and \<^verbatim>\<open>bytes\<close> (a \<open>BytesType\<close> of unknown
  length), and the expression of an integer literal.\<close>

definition int_type :: ty where
  "int_type = Ty IntType (Some 8) ''int'' []"

definition bytes_type :: ty where
  "bytes_type = Ty BytesType None ''bytes'' []"

definition pushint :: "nat \<Rightarrow> expr" where
  "pushint n = Expr None int_type [''pushint '' @ str_nat n] (str_nat n)"

text \<open>
  \<^verbatim>\<open>inner_group:\<close> with two \<^verbatim>\<open>inner_txn:\<close> blocks, followed by \<^verbatim>\<open>exit(1)\<close>:
  \<^verbatim>\<open>
  inner_group:
      inner_txn:
          TypeEnum: 1
      end
      inner_txn:
          Fee: 0
      end
  end
  exit(1)
  \<close>
\<close>

definition group_example :: node where
  "group_example =
     Program
       [InnerGroup 1 ''inner_group:''
          [InnerTxn 2 ''inner_txn:''
             [Leaf (InnerTxnFieldSetter 3 ''TypeEnum: 1'' ''TypeEnum'' None (pushint 1))],
           InnerTxn 5 ''inner_txn:''
             [Leaf (InnerTxnFieldSetter 6 ''Fee: 0'' ''Fee'' None (pushint 0))]],
        Leaf (Exit 9 ''exit(1)'' (pushint 1))]
       None"

text \<open>
  \<^verbatim>\<open>
  exit(1)
  block main:
      @public()
      func f():
          return
      end
      exit(1)
  end
  \<close>
  and the decorated function of its block on its own.
\<close>

definition decorated_func_example :: node where
  "decorated_func_example =
     DecoratedFunc 2 []
       [Leaf (Decorator 3 ''@public()'' ''public'' [])]
       (Func 4 ''func f():'' ''main__func__f'' [] [] [Leaf (Return 5 ''return'' [] [] [])])"

definition block_example :: "source list" where
  "block_example =
     [Statement (Leaf (Exit 1 ''exit(1)'' (pushint 1))),
      BlockSource 2 ''block main:'' ''main'' ''main''
        [Statement decorated_func_example,
         Statement (Leaf (Exit 7 ''exit(1)'' (pushint 1)))] 8]"

text \<open>
  \<^verbatim>\<open>
  for _ in 0:3:
      assert(1)
  end
  \<close>
  built by a compiler whose conditional count is 0.
\<close>

definition for_example :: "node \<times> state" where
  "for_example =
     (case For_Statement_init 1 ''for _ in 0:3:'' (pushint 0) (pushint 3) initial_state of
        (n, st) \<Rightarrow> (add_child n (Leaf (Assert 2 ''assert(1)'' (pushint 1) None)), st))"

text \<open>The line of a box declaration with the method \<^verbatim>\<open>OpenOrCreate\<close>.\<close>

definition box_line :: string where
  \<open>box_line = ''box<Item> item1 = OpenOrCreateBox("a")''\<close>

text \<open>A route to a public function that returns an int, bytes and an int.\<close>

definition route_example :: route where
  "route_example =
     Route ''foo''
       (FuncInfo ''__func__foo'' [(''public'', [(''OnCompletion'', ''NoOp'')])]
          [int_type, bytes_type, int_type])
       []"

text \<open>A type of eight bytes, a struct with a field of that type, and an expression of type
  \<^verbatim>\<open>bytes\<close>.\<close>

definition bytes8_type :: ty where
  "bytes8_type = Ty BytesType (Some 8) ''bytes[8]'' []"

definition item_type :: ty where
  "item_type = Ty StructType (Some 8) ''Item'' [(''id'', StructField 0 8 bytes8_type)]"

definition name_expr :: expr where
  "name_expr = Expr None bytes_type [''load 0 // a''] ''a''"

text \<open>A function that returns two ints, and a parser that takes every text for an int.\<close>

definition func_example :: node where
  "func_example = Func 1 ''func f() int, int:'' ''__func__f'' [] [int_type, int_type] []"

definition any_int :: "string \<Rightarrow> expr option" where
  "any_int s = Some (Expr None int_type [''// '' @ s] s)"

text \<open>The arguments of a return statement with a comma inside parentheses and a comma inside
  a string.\<close>

definition return_args_example :: string where
  \<open>return_args_example = ''f(a, b), "x,y"''\<close>

text \<open>A text that closes a parenthesis before it opens one.\<close>

definition unbalanced_example :: string where
  "unbalanced_example = '')(a,b)''"








section \<open>What the writer has written\<close>

lemma teal_writer_write [simp]: "teal (writer_write t st) = teal st @ [t]"
  by (simp add: teal_def writer_write_def)

lemma teal_level_up [simp]: "teal (level_up st) = teal st"
  by (simp add: teal_def level_up_def)

lemma teal_level_down [simp]: "teal (level_down st) = teal st"
  by (simp add: teal_def level_down_def)

lemma teal_fold_writer_write [simp]: "teal (fold writer_write ts st) = teal st @ ts"
  by (induction ts arbitrary: st) auto

lemma teal_write_expression [simp]: "teal (write_expression e st) = teal st @ expr_teal e"
  by (simp add: write_expression_def)

lemma teal_write_one_line [simp]: "teal (write_one_line ts st) = teal st @ [join ''; '' ts]"
  by (simp add: write_one_line_def)

lemma seq_Cons_Inr:
  "seq (f # fs) st = Inr st' \<longleftrightarrow> (\<exists>st1. f st = Inr st1 \<and> seq fs st1 = Inr st')"
  by (auto split: sum.splits)

lemma seq_append:
  "seq (fs @ gs) st = (case seq fs st of Inl e \<Rightarrow> Inl e | Inr st1 \<Rightarrow> seq gs st1)"
  by (induction fs arbitrary: st) (auto split: sum.splits)

section \<open>Inner transactions and the macro\<close>

text \<open>
  C1. The claim: with the macro enabled every \<^verbatim>\<open>inner_txn:\<close> is emitted as
  \<^verbatim>\<open>callsub _itxn_begin\<close>, its field setters, \<^verbatim>\<open>callsub _itxn_submit\<close>, and a program with an
  \<^verbatim>\<open>inner_group:\<close> ends with the four macro subroutines.

  \<^verbatim>\<open>InnerTxn.write_teal\<close> assigns \<^verbatim>\<open>False\<close> to the flag before it tests it (line 1046). For
  the example, compiled with the macro enabled, the theorem gives the whole output: both
  inner transactions are written as \<^verbatim>\<open>itxn_begin\<close> ... \<^verbatim>\<open>itxn_submit\<close>, the group still calls
  \<^verbatim>\<open>_itxn_group_begin\<close> and \<^verbatim>\<open>_itxn_group_submit\<close>, no subroutine follows the last
  statement, and the flag is \<^verbatim>\<open>False\<close> at the end.
\<close>

theorem C1_inner_txn_switches_macro_off:
  "map_sum id (\<lambda>st. (teal st, use_inner_txns_macro st))
     (compile_program group_example (initial_state\<lparr>use_inner_txns_macro := Some True\<rparr>)) =
     Inr ([''// tl:1: inner_group:'', ''callsub _itxn_group_begin'',
           ''// tl:2: inner_txn:'', ''itxn_begin'',
           ''// tl:3: TypeEnum: 1'', ''pushint 1'', ''itxn_field TypeEnum'',
           ''itxn_submit'', ''// end inner_txn'',
           ''// tl:5: inner_txn:'', ''itxn_begin'',
           ''// tl:6: Fee: 0'', ''pushint 0'', ''itxn_field Fee'',
           ''itxn_submit'', ''// end inner_txn'',
           ''callsub _itxn_group_submit'', ''// end inner_group'',
           ''// tl:9: exit(1)'', ''pushint 1'', ''return''],
          Some False)"
  by code_simp

text \<open>Without an \<^verbatim>\<open>inner_txn:\<close> nothing resets the flag, and the epilogue is written with the
  flag at slot \<^verbatim>\<open>max_slot + 1\<close>.\<close>

lemma empty_group_has_epilogue:
  "map_sum id (\<lambda>st. (take 6 (teal st), use_inner_txns_macro st, max_slot st))
     (compile_program (Program [InnerGroup 1 ''inner_group:'' []] None) initial_state) =
     Inr ([''// tl:1: inner_group:'', ''callsub _itxn_group_begin'',
           ''callsub _itxn_group_submit'', ''// end inner_group'', [],
           ''_itxn_group_begin:''],
          Some True, 1)"
  by code_simp

section \<open>Exit statements, blocks and functions\<close>

text \<open>
  C2. The claim: the build pass raises \<open>ParseError\<close> for a \<^verbatim>\<open>func\<close>, a decorated \<^verbatim>\<open>func\<close> or a
  \<^verbatim>\<open>block\<close> before the first exit statement, at top level or inside a block.

  \<^verbatim>\<open>Program.consume\<close> tests \<^verbatim>\<open>(Func, DecoratedFunc, Block)\<close>, \<^verbatim>\<open>Block.consume\<close> only
  \<^verbatim>\<open>(Func, Block)\<close>. The example, whose block holds a decorated function before its exit
  statement, is accepted; the same two statements at top level are rejected.
\<close>

theorem C2_decorated_func_before_exit_in_block:
  "Program_consume block_example =
     Inr (Program
            [Leaf (Exit 1 ''exit(1)'' (pushint 1)),
             Block 2 ''block main:'' ''main'' ''main''
               [decorated_func_example, Leaf (Exit 7 ''exit(1)'' (pushint 1))]]
            None)
   \<and> Program_consume
         [Statement decorated_func_example, Statement (Leaf (Exit 7 ''exit(1)'' (pushint 1)))] =
       Inl (ParseError ''Unexpected DecoratedFunc definition at line 2. Block and Function definitions must occur after an exit statement (e.g Exit, switch, jump, router).'')"
  by code_simp

section \<open>The loop without a variable\<close>

text \<open>
  C4. The claim: \<^verbatim>\<open>for _ in A:B:\<close> pops the duplicated counter at loop exit, on the path
  taken when \<^verbatim>\<open>bnz\<close> to the end label fires.

  \<^verbatim>\<open>For_Statement.write_teal\<close> writes \<^verbatim>\<open>pop\<close> after the unconditional \<^verbatim>\<open>b\<close> to the start
  label and before the end label (lines 1574--1576): the exit branch jumps past it and
  nothing falls through to it. The theorem gives the whole output for the example, and
  what follows the end label.
\<close>

theorem C4_pop_is_before_the_end_label:
  "map_sum id teal (write_teal (fst for_example) (snd for_example)) =
     Inr [''// tl:1: for _ in 0:3:'', ''pushint 0'', ''dup'', ''l0_for:'',
          ''pushint 3'', ''=='', ''bnz l0_end'',
          ''// tl:2: assert(1)'', ''pushint 1'', ''assert'',
          ''pushint 1'', ''+'', ''dup'', ''b l0_for'', ''pop'', ''l0_end:'']
   \<and> map_sum id (\<lambda>st. dropWhile (\<lambda>l. l \<noteq> ''l0_end:'') (teal st))
         (write_teal (fst for_example) (snd for_example)) = Inr [''l0_end:'']"
  by code_simp

section \<open>Box declarations\<close>

text \<open>The optional group of the pattern yields \<^verbatim>\<open>Open\<close>, \<^verbatim>\<open>Create\<close> or nothing.\<close>

lemma method_Box_cases:
  "method_Box s = Some (m, r) \<Longrightarrow> m = None \<or> m = Some ''Open'' \<or> m = Some ''Create''"
  by (auto simp: method_Box_def split: option.splits)

lemma BoxDeclaration_pattern_method:
  "BoxDeclaration_pattern line = Some (struct_name, name, m, key) \<Longrightarrow>
     m = None \<or> m = Some ''Open'' \<or> m = Some ''Create''"
  unfolding BoxDeclaration_pattern_def
  by (force split: option.splits dest: method_Box_cases)

text \<open>
  C8. The claim: the line \<^verbatim>\<open>box<S> x = OpenOrCreateBox(k)\<close> parses as a \<open>BoxDeclaration\<close> and
  its code generation emits \<^verbatim>\<open>box_create\<close> followed by \<^verbatim>\<open>pop\<close>.

  \<^verbatim>\<open>BoxDeclaration.pattern\<close> has \<^verbatim>\<open>(?P<method>Open|Create)?\<close> only. The line is dispatched to
  \<open>BoxDeclaration\<close>, the pattern does not match, and the constructor raises \<open>ParseError\<close>
  whatever the expression parser does; the branch of \<^verbatim>\<open>write_teal\<close> for \<^verbatim>\<open>OpenOrCreate\<close>
  is never reached from a parsed line (\<open>BoxDeclaration_pattern_method\<close>).
\<close>

theorem C8_OpenOrCreateBox_is_a_parse_error:
  "LineStatement_dispatch 2 box_line = Inr BoxDeclaration_class
   \<and> BoxDeclaration_pattern box_line = None
   \<and> BoxDeclaration_init parse_expression 2 box_line
       = Inl (pattern_error BoxDeclaration_pattern_text ''BoxDeclaration'' box_line)"
proof -
  have p: "BoxDeclaration_pattern box_line = None"
    unfolding box_line_def by code_simp
  have d: "LineStatement_dispatch 2 box_line = Inr BoxDeclaration_class"
    unfolding box_line_def by code_simp
  show ?thesis
    using p d by (simp add: BoxDeclaration_init_def)
qed

section \<open>Field setters of inner transactions\<close>

lemma is_digit_word: "is_digit c \<Longrightarrow> is_word c"
  by (simp add: is_word_def)

lemma is_word_not_special:
  "is_word c \<Longrightarrow> c \<noteq> CHR ''['' \<and> c \<noteq> CHR '']'' \<and> c \<noteq> CHR '':'' \<and> c \<noteq> newline"
  by (auto simp: is_word_def is_lower_def is_upper_def is_digit_def newline_def)

lemma literal_Some: "literal p s = Some r \<Longrightarrow> s = p @ r"
  by (induction p s rule: literal.induct) (auto split: if_splits)

lemma literal_append: "literal p (p @ r) = Some r"
  by (induction p) auto

lemma index_group_Some:
  "index_group s = Some (idx, r) \<Longrightarrow>
     s = CHR ''['' # idx @ CHR '']'' # r \<and> list_all is_digit idx
     \<and> (length idx = 1 \<or> length idx = 2)"
  by (cases s rule: index_group.cases) (auto split: if_splits)

lemma index_group_not_bracket: "c \<noteq> CHR ''['' \<Longrightarrow> index_group (c # r) = None"
  by (cases "index_group (c # r)") (auto dest: index_group_Some)

lemma setter_tail_other:
  "c \<noteq> CHR ''['' \<Longrightarrow> c \<noteq> CHR '':'' \<Longrightarrow> setter_tail (c # r) = None"
  by (simp add: setter_tail_def index_group_not_bracket)

lemma setter_match_from_skip:
  "list_all (\<lambda>c. c \<noteq> CHR ''['' \<and> c \<noteq> CHR '':'' \<and> c \<noteq> newline) u \<Longrightarrow>
     setter_match_from acc (u @ r) = setter_match_from (acc @ u) r"
proof (induction u arbitrary: acc)
  case Nil
  then show ?case by simp
next
  case (Cons c u)
  then have "setter_tail (c # u @ r) = None"
    by (simp add: setter_tail_other)
  moreover have "dot c" using Cons.prems by (simp add: dot_def)
  ultimately have "setter_match_from acc ((c # u) @ r) = setter_match_from (acc @ [c]) (u @ r)"
    by simp
  also have "\<dots> = setter_match_from ((acc @ [c]) @ u) r"
    using Cons.IH [of "acc @ [c]"] Cons.prems by simp
  finally show ?case by simp
qed

lemma is_digit_not_close: "is_digit c \<Longrightarrow> c \<noteq> CHR '']''"
  by (auto simp: is_digit_def)

lemma index_group_three_digits:
  assumes "list_all is_digit ds" and "3 \<le> length ds"
  shows "index_group (CHR ''['' # ds @ r) = None"
proof -
  obtain d1 d2 d3 ds' where ds: "ds = d1 # d2 # d3 # ds'"
    using assms(2) by (cases ds; cases "tl ds"; cases "tl (tl ds)") auto
  then have "d2 \<noteq> CHR '']''" and "d3 \<noteq> CHR '']''"
    using assms(1) by (auto dest: is_digit_not_close)
  then show ?thesis by (simp add: ds)
qed

lemma setter_match_three_digits:
  assumes F: "list_all is_word F"
      and ds: "list_all is_digit ds" and len: "3 \<le> length ds"
      and e: "list_all dot e"
  shows "InnerTxnFieldSetter_pattern (F @ ''['' @ ds @ '']: '' @ e) =
           Some (F @ ''['' @ ds @ '']'', None, e)"
proof -
  let ?ok = "\<lambda>c. c \<noteq> CHR ''['' \<and> c \<noteq> CHR '':'' \<and> c \<noteq> newline"
  have okF: "list_all ?ok F"
    using F is_word_not_special by (induction F) auto
  have okds: "list_all ?ok ds"
    using ds is_word_not_special is_digit_word by (induction ds) auto
  have "setter_match_from [] (F @ ''['' @ ds @ '']: '' @ e)
        = setter_match_from F (''['' @ ds @ '']: '' @ e)"
    using setter_match_from_skip [OF okF, of "[]"] by simp
  also have "\<dots> = setter_match_from (F @ ''['') (ds @ '']: '' @ e)"
  proof -
    have "setter_tail (CHR ''['' # ds @ '']: '' @ e) = None"
      using index_group_three_digits [OF ds len] by (simp add: setter_tail_def)
    then show ?thesis by (simp add: dot_def newline_def)
  qed
  also have "\<dots> = setter_match_from (F @ ''['' @ ds) ('']: '' @ e)"
    using setter_match_from_skip [OF okds, of "F @ ''[''"] by simp
  also have "\<dots> = setter_match_from (F @ ''['' @ ds @ '']'') ('': '' @ e)"
    by (simp add: setter_tail_other dot_def newline_def)
  also have "\<dots> = Some (F @ ''['' @ ds @ '']'', None, e)"
  proof -
    have "takeWhile dot e = e" using e by (induction e) auto
    then have "setter_tail ('': '' @ e) = Some (None, e)"
      by (simp add: setter_tail_def index_group_not_bracket)
    then show ?thesis by simp
  qed
  finally show ?thesis by (simp add: InnerTxnFieldSetter_pattern_def)
qed

lemma setter_tail_index:
  "setter_tail s = Some (Some idx, e) \<Longrightarrow>
     (\<exists>r. s = ''['' @ idx @ '']: '' @ r \<and> e = takeWhile dot r)
     \<and> list_all is_digit idx \<and> (length idx = 1 \<or> length idx = 2)"
  by (auto simp: setter_tail_def split: option.splits dest!: index_group_Some literal_Some)

lemma setter_match_from_index:
  "setter_match_from acc s = Some (f, Some idx, e) \<Longrightarrow>
     (\<exists>p r. f = acc @ p \<and> s = p @ ''['' @ idx @ '']: '' @ r \<and> e = takeWhile dot r)
     \<and> list_all is_digit idx \<and> (length idx = 1 \<or> length idx = 2)"
proof (induction acc s rule: setter_match_from.induct)
  case (1 acc)
  then show ?case
    by (auto split: option.splits dest!: setter_tail_index)
next
  case (2 acc c cs)
  show ?case
  proof (cases "setter_tail (c # cs)")
    case None
    with "2.prems" have dc: "dot c" and rec: "setter_match_from (acc @ [c]) cs = Some (f, Some idx, e)"
      by (auto split: if_splits)
    from "2.IH" [OF None dc rec] obtain p r where
      "f = (acc @ [c]) @ p" "cs = p @ ''['' @ idx @ '']: '' @ r" "e = takeWhile dot r"
      and d: "list_all is_digit idx" "length idx = 1 \<or> length idx = 2"
      by blast
    then have "f = acc @ (c # p) \<and> c # cs = (c # p) @ ''['' @ idx @ '']: '' @ r \<and> e = takeWhile dot r"
      by simp
    with d show ?thesis by blast
  next
    case (Some m)
    with "2.prems" have t: "setter_tail (c # cs) = Some (Some idx, e)" and "f = acc"
      by (auto split: prod.splits)
    from setter_tail_index [OF t] obtain r where
      "c # cs = ''['' @ idx @ '']: '' @ r" "e = takeWhile dot r"
      and d: "list_all is_digit idx" "length idx = 1 \<or> length idx = 2"
      by blast
    then have "f = acc @ [] \<and> c # cs = [] @ ''['' @ idx @ '']: '' @ r \<and> e = takeWhile dot r"
      using \<open>f = acc\<close> by simp
    with d show ?thesis by blast
  qed
qed

text \<open>
  C10. A field setter is an array setter, with an index that \<^verbatim>\<open>InnerTxn.process\<close> checks,
  only when the bracketed index has one or two digits. For a field name \<open>F\<close> of word
  characters and an index \<open>ds\<close> of three or more digits the line \<^verbatim>\<open>F[ds]: e\<close> still
  parses: the brackets and digits become part of the field name and the index is
  \<open>None\<close>; the loop of \<^verbatim>\<open>process\<close> then only processes the expression, with
  \<^verbatim>\<open>array_fields\<close> as it was; and \<^verbatim>\<open>write_teal\<close> emits \<^verbatim>\<open>itxn_field F[ds]\<close>.
\<close>

theorem C10_index_of_three_digits:
  assumes F: "list_all is_word F"
      and ds: "list_all is_digit ds" and len: "3 \<le> length ds"
      and e: "list_all dot e"
      and parse: "parse_expression e = Some ex"
  shows "InnerTxnFieldSetter_init parse_expression line_no (F @ ''['' @ ds @ '']: '' @ e) =
           Inr (InnerTxnFieldSetter line_no (F @ ''['' @ ds @ '']: '' @ e)
                  (F @ ''['' @ ds @ '']'') None ex)
         \<and> InnerTxn_process_loop compiler_line_no array_fields
             (Leaf (InnerTxnFieldSetter line_no (F @ ''['' @ ds @ '']: '' @ e)
                      (F @ ''['' @ ds @ '']'') None ex) # rest) =
             (case expr_process ex of
                Some err \<Rightarrow> Inl err
              | None \<Rightarrow> InnerTxn_process_loop compiler_line_no array_fields rest)
         \<and> map_sum id teal
             (write_leaf (InnerTxnFieldSetter line_no (F @ ''['' @ ds @ '']: '' @ e)
                            (F @ ''['' @ ds @ '']'') None ex) st) =
             Inr (teal st @ [tl_comment line_no (F @ ''['' @ ds @ '']: '' @ e)] @ expr_teal ex
                    @ [''itxn_field '' @ F @ ''['' @ ds @ '']''])
         \<and> (\<forall>line f idx x.
               InnerTxnFieldSetter_pattern line = Some (f, Some idx, x) \<longrightarrow>
                 (length idx = 1 \<or> length idx = 2) \<and> list_all is_digit idx
                 \<and> (\<exists>r. line = f @ ''['' @ idx @ '']: '' @ r))"
proof -
  have init: "InnerTxnFieldSetter_init parse_expression line_no (F @ ''['' @ ds @ '']: '' @ e) =
           Inr (InnerTxnFieldSetter line_no (F @ ''['' @ ds @ '']: '' @ e)
                  (F @ ''['' @ ds @ '']'') None ex)"
    using setter_match_three_digits [OF F ds len e] parse
    by (simp add: InnerTxnFieldSetter_init_def)
  have loop: "InnerTxn_process_loop compiler_line_no array_fields
             (Leaf (InnerTxnFieldSetter line_no (F @ ''['' @ ds @ '']: '' @ e)
                      (F @ ''['' @ ds @ '']'') None ex) # rest) =
             (case expr_process ex of
                Some err \<Rightarrow> Inl err
              | None \<Rightarrow> InnerTxn_process_loop compiler_line_no array_fields rest)"
    by simp
  have emit: "map_sum id teal
             (write_leaf (InnerTxnFieldSetter line_no (F @ ''['' @ ds @ '']: '' @ e)
                            (F @ ''['' @ ds @ '']'') None ex) st) =
             Inr (teal st @ [tl_comment line_no (F @ ''['' @ ds @ '']: '' @ e)] @ expr_teal ex
                    @ [''itxn_field '' @ F @ ''['' @ ds @ '']''])"
    by (simp add: w_def we_def)
  have only: "\<forall>line f idx x.
               InnerTxnFieldSetter_pattern line = Some (f, Some idx, x) \<longrightarrow>
                 (length idx = 1 \<or> length idx = 2) \<and> list_all is_digit idx
                 \<and> (\<exists>r. line = f @ ''['' @ idx @ '']: '' @ r)"
  proof (intro allI impI)
    fix line f idx x
    assume "InnerTxnFieldSetter_pattern line = Some (f, Some idx, x)"
    then have "setter_match_from [] line = Some (f, Some idx, x)"
      by (simp add: InnerTxnFieldSetter_pattern_def)
    from setter_match_from_index [OF this]
    show "(length idx = 1 \<or> length idx = 2) \<and> list_all is_digit idx
          \<and> (\<exists>r. line = f @ ''['' @ idx @ '']: '' @ r)"
      by auto
  qed
  from init loop emit only show ?thesis by blast
qed

theorem C10_index_of_three_digits_witness:
  "InnerTxnFieldSetter_init (\<lambda>s. Some (pushint 7)) 3 ''ApplicationArgs[123]: 7'' =
     Inr (InnerTxnFieldSetter 3 ''ApplicationArgs[123]: 7'' ''ApplicationArgs[123]'' None
            (pushint 7))
   \<and> InnerTxn_process_loop 9 []
       [Leaf (InnerTxnFieldSetter 3 ''ApplicationArgs[123]: 7'' ''ApplicationArgs[123]'' None
                (pushint 7))] = Inr []
   \<and> map_sum id teal
       (write_leaf (InnerTxnFieldSetter 3 ''ApplicationArgs[123]: 7'' ''ApplicationArgs[123]''
                      None (pushint 7)) initial_state) =
       Inr [''// tl:3: ApplicationArgs[123]: 7'', ''pushint 7'',
            ''itxn_field ApplicationArgs[123]'']
   \<and> InnerTxnFieldSetter_pattern ''ApplicationArgs[12]: 7''
       = Some (''ApplicationArgs'', Some ''12'', ''7'')
   \<and> length ''12'' = 2"
proof -
  have F: "list_all is_word ''ApplicationArgs''" by code_simp
  have ds: "list_all is_digit ''123''" by code_simp
  have len: "3 \<le> length ''123''" by simp
  have e: "list_all dot ''7''" by code_simp
  have parse: "(\<lambda>s. Some (pushint 7)) ''7'' = Some (pushint 7)" by simp
  have p12: "InnerTxnFieldSetter_pattern ''ApplicationArgs[12]: 7''
               = Some (''ApplicationArgs'', Some ''12'', ''7'')" by code_simp
  have t: "teal initial_state = []" by (simp add: teal_def initial_state_def)
  have pr: "expr_process (pushint 7) = None" by (simp add: pushint_def)
  have tl: "tl_comment 3 ''ApplicationArgs[123]: 7'' = ''// tl:3: ApplicationArgs[123]: 7''"
    by code_simp
  have pt: "expr_teal (pushint 7) = [''pushint 7'']" by code_simp
  from C10_index_of_three_digits
         [OF F ds len e parse, of 3 9 "[]" "[]" initial_state]
  show ?thesis
    using p12 t pr tl pt by simp
qed

section \<open>The router\<close>

lemma teal_fold_one_line:
  "teal (fold (\<lambda>e. write_one_line (expr_teal e)) es st)
     = teal st @ map (\<lambda>e. join ''; '' (expr_teal e)) es"
  by (induction es arbitrary: st) auto

lemma instructions_Nil [simp]: "instructions [] = []"
  by (simp add: instructions_def)

lemma instructions_append [simp]: "instructions (xs @ ys) = instructions xs @ instructions ys"
  by (simp add: instructions_def)

lemma instructions_Cons:
  "instructions (x # xs) = (if is_comment x then instructions xs else x # instructions xs)"
  by (simp add: instructions_def)

lemma instructions_replicate_concat [simp]:
  "instructions (replicate n ''concat'') = replicate n ''concat''"
  by (induction n) (auto simp: instructions_Cons is_comment_def)

lemma write_returns_teal:
  "\<exists>ls. teal (write_returns i rs st) = teal st @ ls
        \<and> instructions ls =
            concat (map (\<lambda>(i, r). (if 0 < i then [''uncover '' @ str_nat i @ '' // '' @ ty_name r]
                                     else [])
                                    @ (if isinstance_IntType r then [''itob''] else []))
                     (enumerate i rs))"
proof (induction rs arbitrary: i st)
  case Nil
  then show ?case by (simp add: instructions_def)
next
  case (Cons r rs)
  let ?st1 = "if i > 0 then writer_write (''uncover '' @ str_nat i @ '' // '' @ ty_name r) st
              else writer_write (''// uncover '' @ str_nat i @ '' '' @ ty_name r) st"
  let ?st2 = "if isinstance_IntType r then writer_write ''itob'' ?st1 else ?st1"
  let ?hd = "(if i > 0 then [''uncover '' @ str_nat i @ '' // '' @ ty_name r]
              else [''// uncover '' @ str_nat i @ '' '' @ ty_name r])
             @ (if isinstance_IntType r then [''itob''] else [])"
  from Cons.IH [of "Suc i" ?st2] obtain ls where
    ls: "teal (write_returns (Suc i) rs ?st2) = teal ?st2 @ ls"
    and ins: "instructions ls =
            concat (map (\<lambda>(i, r). (if 0 < i then [''uncover '' @ str_nat i @ '' // '' @ ty_name r]
                                     else [])
                                    @ (if isinstance_IntType r then [''itob''] else []))
                     (enumerate (Suc i) rs))"
    by blast
  have t2: "teal ?st2 = teal st @ ?hd" by simp
  have "teal (write_returns i (r # rs) st) = teal st @ (?hd @ ls)"
    using ls t2 by (simp add: Let_def)
  moreover have "instructions (?hd @ ls) =
            concat (map (\<lambda>(i, r). (if 0 < i then [''uncover '' @ str_nat i @ '' // '' @ ty_name r]
                                     else [])
                                    @ (if isinstance_IntType r then [''itob''] else []))
                     (enumerate i (r # rs)))"
    using ins by (simp add: instructions_Cons is_comment_def)
  ultimately show ?case by blast
qed

lemma write_return_log_teal:
  assumes "write_return_log returns st = Inr st'"
  shows "\<exists>ls. teal st' = teal st @ ls \<and> instructions ls = return_encoding returns"
proof (cases "returns = []")
  case True
  with assms show ?thesis
    by (simp add: write_return_log_def return_encoding_def instructions_def)
next
  case False
  let ?st1 = "writer_write (''// return '' @ join '', '' (map ty_name returns)) st"
  obtain ls where ls: "teal (write_returns 0 returns ?st1) = teal ?st1 @ ls"
    and ins: "instructions ls =
            concat (map (\<lambda>(i, r). (if 0 < i then [''uncover '' @ str_nat i @ '' // '' @ ty_name r]
                                     else [])
                                    @ (if isinstance_IntType r then [''itob''] else []))
                     (enumerate 0 returns))"
    using write_returns_teal [of 0 returns ?st1] by blast
  let ?all = "[''// return '' @ join '', '' (map ty_name returns)] @ ls
              @ replicate (length returns - 1) ''concat''
              @ [''pushbytes 0x151f7c75; swap; concat; log // arc4 return log'']"
  from assms False have st': "st' = writer_write ''pushbytes 0x151f7c75; swap; concat; log // arc4 return log''
                       (fold writer_write (replicate (length returns - 1) ''concat'')
                          (write_returns 0 returns ?st1))"
    by (simp add: write_return_log_def w_def)
  have "teal st' = teal (write_returns 0 returns ?st1)
                     @ replicate (length returns - 1) ''concat''
                     @ [''pushbytes 0x151f7c75; swap; concat; log // arc4 return log'']"
    unfolding st' by (simp del: fold_replicate)
  also have "teal (write_returns 0 returns ?st1) = teal ?st1 @ ls" by (rule ls)
  finally have "teal st' = teal st @ ?all" by simp
  moreover have "instructions ?all = return_encoding returns"
    using False ins by (simp add: return_encoding_def instructions_Cons is_comment_def)
  ultimately show ?thesis by blast
qed

lemma write_on_completion_teal:
  assumes "write_on_completion func st = Inr st'"
  shows "\<exists>oc. st' = writer_write oc st"
  using assms
  by (auto simp: write_on_completion_def w_def Let_def split: option.splits if_splits)

lemma write_route_section:
  assumes "write_route r st = Inr st'"
  shows "\<exists>sec. teal st' = teal st @ sec \<and> route_section r sec"
proof -
  let ?args = "map (\<lambda>e. join ''; '' (expr_teal e)) (arg_expressions r)"
  from assms obtain st2 st5 where
    oc: "write_on_completion (route_func r) (level_up (writer_write (route_label r @ '':'') st)) = Inr st2"
    and ret: "write_return_log (func_returns (route_func r))
               (writer_write (''callsub '' @ func_label (route_func r))
                  (fold (\<lambda>e. write_one_line (expr_teal e)) (arg_expressions r) st2)) = Inr st5"
    and fin: "st' = level_down (writer_write ''pushint 1; return'' st5)"
    by (auto simp: write_route_def w_def up_def down_def split: sum.splits)
  from write_on_completion_teal [OF oc] obtain ocl where
    st2: "st2 = writer_write ocl (level_up (writer_write (route_label r @ '':'') st))"
    by blast
  from write_return_log_teal [OF ret] obtain ls where
    ls: "teal st5 = teal (writer_write (''callsub '' @ func_label (route_func r))
                  (fold (\<lambda>e. write_one_line (expr_teal e)) (arg_expressions r) st2)) @ ls"
    and ins: "instructions ls = return_encoding (func_returns (route_func r))"
    by blast
  let ?pre = "[route_label r @ '':'', ocl] @ ?args
              @ [''callsub '' @ func_label (route_func r)]"
  let ?post = "ls @ [''pushint 1; return'']"
  have t: "teal st' = teal st @ (?pre @ ?post)"
    using fin ls st2 by (simp add: teal_fold_one_line)
  have len: "length ?pre = length (arg_expressions r) + 3" by simp
  have d: "drop (length (arg_expressions r) + 3) (?pre @ ?post) = ?post"
    using len by (metis append_eq_conv_conj)
  have n0: "(?pre @ ?post) ! 0 = route_label r @ '':''" by simp
  have n2: "(?pre @ ?post) ! (length (arg_expressions r) + 2)
              = ''callsub '' @ func_label (route_func r)"
    by (simp add: nth_append)
  have a: "take (length (arg_expressions r)) (drop 2 (?pre @ ?post)) = ?args"
    by simp
  have i: "instructions ?post
             = return_encoding (func_returns (route_func r)) @ [''pushint 1; return'']"
    using ins by (simp add: instructions_Cons is_comment_def)
  have "route_section r (?pre @ ?post)"
    unfolding route_section_def Let_def
    using len n0 n2 a i d by (simp only: length_append) simp
  with t show ?thesis by blast
qed

lemma write_routes_sections:
  "seq (map write_route routes) st = Inr st' \<Longrightarrow>
     \<exists>sections. teal st' = teal st @ concat sections \<and> list_all2 route_section routes sections"
proof (induction routes arbitrary: st)
  case Nil
  then show ?case by simp
next
  case (Cons r routes)
  then obtain st1 where r: "write_route r st = Inr st1"
    and rest: "seq (map write_route routes) st1 = Inr st'"
    by (auto split: sum.splits)
  from write_route_section [OF r] obtain sec where
    sec: "teal st1 = teal st @ sec" "route_section r sec" by blast
  from Cons.IH [OF rest] obtain sections where
    "teal st' = teal st1 @ concat sections" "list_all2 route_section routes sections" by blast
  with sec have "teal st' = teal st @ concat (sec # sections)
                 \<and> list_all2 route_section (r # routes) (sec # sections)"
    by simp
  then show ?case by blast
qed

lemma seq_map_w:
  "seq (map w ts) st = Inr (fold writer_write ts st)"
  by (induction ts arbitrary: st) (auto simp: w_def)

text \<open>
  C5. For every route, in the order of the routes, the router writes the label of the
  route, the assertion on the completion, one line per argument and \<^verbatim>\<open>callsub\<close> to the
  label of the function; after the \<^verbatim>\<open>callsub\<close>, comments apart, come \<^verbatim>\<open>uncover i\<close> for each
  return value after the first, \<^verbatim>\<open>itob\<close> after each value of an int type, \<open>n - 1\<close> times
  \<^verbatim>\<open>concat\<close>, the line that prefixes \<^verbatim>\<open>0x151f7c75\<close> and logs, and last \<^verbatim>\<open>pushint 1; return\<close>
  (\<open>route_section\<close> with \<open>return_encoding\<close>; a function without return values has the
  last line only).
\<close>

theorem C5_router_return_encoding:
  assumes "Router_write_teal line_no line routes st = Inr st'"
  shows "\<exists>sections.
           teal st' = teal st
             @ [tl_comment line_no line]
             @ map (\<lambda>r. ''pushbytes '' @ [dquote] @ route_name r @ [dquote]) routes
             @ [''txna ApplicationArgs 0'',
                ''match '' @ join '' '' (map route_label routes),
                ''err // unexpected value'']
             @ concat sections
           \<and> list_all2 route_section routes sections"
proof -
  let ?hd = "[tl_comment line_no line]
             @ map (\<lambda>r. ''pushbytes '' @ [dquote] @ route_name r @ [dquote]) routes
             @ [''txna ApplicationArgs 0'',
                ''match '' @ join '' '' (map route_label routes),
                ''err // unexpected value'']"
  have eq: "[w (tl_comment line_no line)]
          @ map (\<lambda>r. w (''pushbytes '' @ [dquote] @ route_name r @ [dquote])) routes
          @ [w ''txna ApplicationArgs 0'',
             w (''match '' @ join '' '' (map route_label routes)),
             w ''err // unexpected value''] = map w ?hd"
    by (simp add: comp_def)
  have "Router_write_teal line_no line routes st
          = seq (map write_route routes) (fold writer_write ?hd st)"
    unfolding Router_write_teal_def
    by (simp only: append_assoc [symmetric] seq_append [of _ "map write_route routes"])
       (simp only: append_assoc eq seq_map_w sum.case)
  with assms have "seq (map write_route routes) (fold writer_write ?hd st) = Inr st'"
    by simp
  from write_routes_sections [OF this] obtain sections where
    "teal st' = teal (fold writer_write ?hd st) @ concat sections"
    "list_all2 route_section routes sections" by blast
  then have "teal st' = teal st @ ?hd @ concat sections \<and> list_all2 route_section routes sections"
    by simp
  then show ?thesis by (auto simp: append_assoc)
qed

theorem C5_router_return_encoding_witness:
  "\<exists>st' sections.
     Router_write_teal 3 ''router:'' [route_example] initial_state = Inr st'
     \<and> teal st' = teal initial_state
           @ [tl_comment 3 ''router:'']
           @ map (\<lambda>r. ''pushbytes '' @ [dquote] @ route_name r @ [dquote]) [route_example]
           @ [''txna ApplicationArgs 0'',
              ''match '' @ join '' '' (map route_label [route_example]),
              ''err // unexpected value'']
           @ concat sections
     \<and> list_all2 route_section [route_example] sections
     \<and> return_encoding (func_returns (route_func route_example)) =
         [''itob'', ''uncover 1 // bytes'', ''uncover 2 // int'', ''itob'', ''concat'', ''concat'',
          ''pushbytes 0x151f7c75; swap; concat; log // arc4 return log'']"
proof -
  have "map_sum id teal (Router_write_teal 3 ''router:'' [route_example] initial_state) =
          Inr [''// tl:3: router:'', ''pushbytes '' @ [dquote] @ ''foo'' @ [dquote],
               ''txna ApplicationArgs 0'', ''match route_foo'', ''err // unexpected value'',
               ''route_foo:'',
               ''txn OnCompletion; pushint 0; ==; assert // assert OnCompletion == NoOp'',
               ''callsub __func__foo'', ''// return int, bytes, int'',
               ''// uncover 0 int'', ''itob'', ''uncover 1 // bytes'',
               ''uncover 2 // int'', ''itob'', ''concat'', ''concat'',
               ''pushbytes 0x151f7c75; swap; concat; log // arc4 return log'',
               ''pushint 1; return'']"
    by code_simp
  then obtain st' where st': "Router_write_teal 3 ''router:'' [route_example] initial_state = Inr st'"
    by (cases "Router_write_teal 3 ''router:'' [route_example] initial_state") auto
  have enc: "return_encoding (func_returns (route_func route_example)) =
         [''itob'', ''uncover 1 // bytes'', ''uncover 2 // int'', ''itob'', ''concat'', ''concat'',
          ''pushbytes 0x151f7c75; swap; concat; log // arc4 return log'']"
    by code_simp
  from C5_router_return_encoding [OF st'] st' enc show ?thesis by blast
qed

section \<open>Messages of the type checks\<close>

lemma digit_char_one_line: "d < 10 \<Longrightarrow> digit_char d \<noteq> newline"
proof -
  assume "d < 10"
  then have "d \<in> {0, 1, 2, 3, 4, 5, 6, 7, 8, 9}" by auto
  then show ?thesis
    by (auto simp: digit_char_def newline_def)
qed

lemma str_nat_one_line: "one_line (str_nat n)"
proof (induction n rule: str_nat.induct)
  case (1 n)
  show ?case
  proof (cases "n < 10")
    case True
    then show ?thesis
      using digit_char_one_line [of n] by (subst str_nat.simps) (simp add: one_line_def)
  next
    case False
    then show ?thesis
      using 1 digit_char_one_line [of "n mod 10"]
      by (subst str_nat.simps) (simp add: one_line_def)
  qed
qed

lemma str_size_one_line: "one_line (str_size sz)"
  using str_nat_one_line
  by (cases sz) (simp_all add: str_size_def one_line_def newline_def)

lemma one_line_append [simp]: "one_line (a @ b) = (one_line a \<and> one_line b)"
  by (auto simp: one_line_def)

lemma splitlines_from_line:
  "one_line a \<Longrightarrow> splitlines_from cur (a @ newline # r) = (cur @ a) # splitlines_from [] r"
  by (induction a arbitrary: cur) (auto simp: one_line_def)

lemma splitlines_from_last:
  "one_line a \<Longrightarrow> splitlines_from cur a = (if cur @ a = [] then [] else [cur @ a])"
  by (induction a arbitrary: cur) (auto simp: one_line_def)

lemma splitlines_line:
  "one_line a \<Longrightarrow> splitlines (a @ newline # r) = a # splitlines r"
  by (simp add: splitlines_def splitlines_from_line)

lemma splitlines_last:
  "one_line a \<Longrightarrow> a \<noteq> [] \<Longrightarrow> splitlines a = [a]"
  by (simp add: splitlines_def splitlines_from_last)

text \<open>The lines of the message that both statements build: a head, and when a cast
  would do, the hint, the line of the source and the suggestions.\<close>

lemma message_lines:
  assumes "one_line head" "one_line line" "one_line c" "one_line p" "c \<noteq> []" "p \<noteq> []"
  shows "splitlines (head @ [newline] @ ''Perhaps Cast or padding is required? '' @ [newline]
           @ ''- '' @ line @ [newline] @ c) =
         [head, ''Perhaps Cast or padding is required? '', ''- '' @ line, c]"
    and "splitlines ((head @ [newline] @ ''Perhaps Cast or padding is required? '' @ [newline]
           @ ''- '' @ line @ [newline] @ c) @ [newline] @ p) =
         [head, ''Perhaps Cast or padding is required? '', ''- '' @ line, c, p]"
proof -
  have hint: "one_line ''Perhaps Cast or padding is required? ''"
    by (simp add: one_line_def newline_def)
  have l: "one_line (''- '' @ line)"
    using assms(2) by (simp add: one_line_def newline_def)
  show "splitlines (head @ [newline] @ ''Perhaps Cast or padding is required? '' @ [newline]
           @ ''- '' @ line @ [newline] @ c) =
         [head, ''Perhaps Cast or padding is required? '', ''- '' @ line, c]"
    using splitlines_line [OF assms(1)] splitlines_line [OF hint] splitlines_line [OF l]
      splitlines_last [OF assms(3) assms(5)]
    by simp
  show "splitlines ((head @ [newline] @ ''Perhaps Cast or padding is required? '' @ [newline]
           @ ''- '' @ line @ [newline] @ c) @ [newline] @ p) =
         [head, ''Perhaps Cast or padding is required? '', ''- '' @ line, c, p]"
    using splitlines_line [OF assms(1)] splitlines_line [OF hint] splitlines_line [OF l]
      splitlines_line [OF assms(3)] splitlines_last [OF assms(4) assms(6)]
    by simp
qed

lemma one_line_literals [simp]:
  "one_line [] = True" "one_line (c # cs) = (c \<noteq> newline \<and> one_line cs)"
  by (auto simp: one_line_def)

lemma suggestions_differ:
  "suggestion target ''Rpad'' x a \<noteq> suggestion target ''Cast'' y b"
  by (simp add: suggestion_def)

lemma suggestion_one_line:
  "one_line target \<Longrightarrow> one_line x \<Longrightarrow> one_line a \<Longrightarrow> one_line f
     \<Longrightarrow> one_line (suggestion target f x a)"
  by (simp add: suggestion_def newline_def)

lemma suggestion_not_others:
  "suggestion target f x a \<noteq> ''Perhaps Cast or padding is required? ''"
  "suggestion target f x a \<noteq> ''- '' @ line"
  "suggestion target f x a \<noteq> ''Incorrect type for '' @ r"
  by (simp_all add: suggestion_def)

text \<open>
  C7. When \<^verbatim>\<open>can_hold\<close> is false and \<^verbatim>\<open>can_hold_with_cast\<close> is true for the type of the
  expression, \<^verbatim>\<open>VarDeclaration.process\<close> and \<^verbatim>\<open>StructOrBoxAssignment.process\<close> raise a
  \<open>CompileError\<close> whose message has the \<^verbatim>\<open>Cast\<close> suggestion among its lines, and has the
  \<^verbatim>\<open>Rpad\<close> suggestion with the size of the destination type among its lines exactly when the
  destination type is neither an int type nor a struct type. The texts that the message
  prints (the line, the names, the text of the expression and the names of the types) hold
  no newline, and the type check is reached: the expression is processed without an error,
  the variable is declared or found, and the field exists.
\<close>

theorem C7_cast_and_padding_suggestions:
  assumes fails: "\<not> can_hold t (expr_type e)"
      and cast: "can_hold_with_cast t (expr_type e)"
      and process: "expr_process e = None"
      and lines: "one_line line" "one_line name" "one_line type_name" "one_line field_name"
        "one_line (expr_tealish e)" "one_line (ty_name (expr_type e))" "one_line (ty_name t)"
      and declared: "declare_scratch_var name type_name = Inr (t, slot)"
      and object: "isinstance_StructType s \<or> isinstance_BoxType s"
      and field: "map_of (ty_fields s) field_name = Some (StructField offset sz t)"
  shows "(\<exists>message.
            VarDeclaration_process can_hold can_hold_with_cast declare_scratch_var
                line_no line type_name name (Some e) = Inl (CompileError message)
            \<and> suggests message
                (suggestion (type_name @ '' '' @ name) ''Cast'' (expr_tealish e) type_name)
            \<and> suggests message
                (suggestion (type_name @ '' '' @ name) ''Rpad'' (expr_tealish e)
                   (str_size (ty_size t)))
              = (\<not> isinstance_IntType t \<and> \<not> isinstance_StructType t))
       \<and> (\<exists>message.
            StructOrBoxAssignment_process can_hold can_hold_with_cast (Some (s, slot))
                line_no line name field_name (Some e) = Inl (CompileError message)
            \<and> suggests message
                (suggestion (name @ ''.'' @ field_name) ''Cast'' (expr_tealish e) (ty_name t))
            \<and> suggests message
                (suggestion (name @ ''.'' @ field_name) ''Rpad'' (expr_tealish e)
                   (str_size (ty_size t)))
              = (\<not> isinstance_IntType t \<and> \<not> isinstance_StructType t))"
proof -
  let ?got = "'', got '' @ ty_name (expr_type e) @ '' at line '' @ str_nat line_no @ ''.''"
  let ?v = "type_name @ '' '' @ name"
  let ?f = "name @ ''.'' @ field_name"
  let ?hv = "''Incorrect type for '' @ ''assignment. Expected '' @ type_name @ ?got"
  let ?hf = "''Incorrect type for '' @ ''struct field assignment. Expected '' @ ty_name t @ ?got"
  have got: "one_line ?got"
    using lines str_nat_one_line [of line_no] by (simp add: newline_def)
  have hv: "one_line ?hv" using got lines by (simp add: newline_def)
  have hf: "one_line ?hf" using got lines by (simp add: newline_def)
  have v: "one_line ?v" using lines by (simp add: newline_def)
  have f: "one_line ?f" using lines by (simp add: newline_def)
  have kw: "one_line ''Cast''" "one_line ''Rpad''" by (simp_all add: newline_def)
  have ne: "suggestion a b c d \<noteq> []" for a b c d by (simp add: suggestion_def)
  note sz = str_size_one_line [of "ty_size t"]
  note cv = suggestion_one_line [OF v lines(5) lines(3) kw(1)]
  note pv = suggestion_one_line [OF v lines(5) sz kw(2)]
  note cf = suggestion_one_line [OF f lines(5) lines(7) kw(1)]
  note pf = suggestion_one_line [OF f lines(5) sz kw(2)]
  have V: "\<exists>message.
            VarDeclaration_process can_hold can_hold_with_cast declare_scratch_var
                line_no line type_name name (Some e) = Inl (CompileError message)
            \<and> suggests message
                (suggestion (type_name @ '' '' @ name) ''Cast'' (expr_tealish e) type_name)
            \<and> suggests message
                (suggestion (type_name @ '' '' @ name) ''Rpad'' (expr_tealish e)
                   (str_size (ty_size t)))
              = (\<not> isinstance_IntType t \<and> \<not> isinstance_StructType t)"
  proof (cases "isinstance_StructType t \<or> isinstance_IntType t")
    case True
    have "VarDeclaration_process can_hold can_hold_with_cast declare_scratch_var
            line_no line type_name name (Some e) =
          Inl (CompileError (?hv @ [newline] @ ''Perhaps Cast or padding is required? ''
                 @ [newline] @ ''- '' @ line @ [newline]
                 @ suggestion ?v ''Cast'' (expr_tealish e) type_name))"
      using fails cast process declared True
      by (simp add: VarDeclaration_process_def suggestion_def Let_def)
    then show ?thesis
      using True message_lines(1) [OF hv lines(1) cv pv ne ne]
        suggestions_differ suggestion_not_others
      by (auto simp: suggests_def)
  next
    case False
    have "VarDeclaration_process can_hold can_hold_with_cast declare_scratch_var
            line_no line type_name name (Some e) =
          Inl (CompileError ((?hv @ [newline] @ ''Perhaps Cast or padding is required? ''
                 @ [newline] @ ''- '' @ line @ [newline]
                 @ suggestion ?v ''Cast'' (expr_tealish e) type_name) @ [newline]
                 @ suggestion ?v ''Rpad'' (expr_tealish e) (str_size (ty_size t))))"
      using fails cast process declared False
      by (simp add: VarDeclaration_process_def suggestion_def Let_def)
    then show ?thesis
      using False message_lines(2) [OF hv lines(1) cv pv ne ne]
      by (auto simp: suggests_def)
  qed
  have S: "\<exists>message.
            StructOrBoxAssignment_process can_hold can_hold_with_cast (Some (s, slot))
                line_no line name field_name (Some e) = Inl (CompileError message)
            \<and> suggests message
                (suggestion (name @ ''.'' @ field_name) ''Cast'' (expr_tealish e) (ty_name t))
            \<and> suggests message
                (suggestion (name @ ''.'' @ field_name) ''Rpad'' (expr_tealish e)
                   (str_size (ty_size t)))
              = (\<not> isinstance_IntType t \<and> \<not> isinstance_StructType t)"
  proof (cases "isinstance_StructType t \<or> isinstance_IntType t")
    case True
    have "StructOrBoxAssignment_process can_hold can_hold_with_cast (Some (s, slot))
            line_no line name field_name (Some e) =
          Inl (CompileError (?hf @ [newline] @ ''Perhaps Cast or padding is required? ''
                 @ [newline] @ ''- '' @ line @ [newline]
                 @ suggestion ?f ''Cast'' (expr_tealish e) (ty_name t)))"
      using fails cast process object field True
      by (simp add: StructOrBoxAssignment_process_def suggestion_def Let_def)
    then show ?thesis
      using True message_lines(1) [OF hf lines(1) cf pf ne ne]
        suggestions_differ suggestion_not_others
      by (auto simp: suggests_def)
  next
    case False
    have "StructOrBoxAssignment_process can_hold can_hold_with_cast (Some (s, slot))
            line_no line name field_name (Some e) =
          Inl (CompileError ((?hf @ [newline] @ ''Perhaps Cast or padding is required? ''
                 @ [newline] @ ''- '' @ line @ [newline]
                 @ suggestion ?f ''Cast'' (expr_tealish e) (ty_name t)) @ [newline]
                 @ suggestion ?f ''Rpad'' (expr_tealish e) (str_size (ty_size t))))"
      using fails cast process object field False
      by (simp add: StructOrBoxAssignment_process_def suggestion_def Let_def)
    then show ?thesis
      using False message_lines(2) [OF hf lines(1) cf pf ne ne]
      by (auto simp: suggests_def)
  qed
  from V S show ?thesis by blast
qed


theorem C7_cast_and_padding_suggestions_witness:
  "(\<exists>message.
      VarDeclaration_process (=) (\<lambda>a b. ty_class a = ty_class b) (\<lambda>n t. Inr (bytes8_type, 0))
          4 ''bytes[8] x = a'' ''bytes[8]'' ''x'' (Some name_expr) = Inl (CompileError message)
      \<and> suggests message ''+ bytes[8] x = Cast(a, bytes[8])''
      \<and> suggests message ''+ bytes[8] x = Rpad(a, 8)'')
   \<and> (\<exists>message.
      StructOrBoxAssignment_process (=) (\<lambda>a b. ty_class a = ty_class b) (Some (item_type, 0))
          4 ''bytes[8] x = a'' ''x'' ''id'' (Some name_expr) = Inl (CompileError message)
      \<and> suggests message ''+ x.id = Cast(a, bytes[8])''
      \<and> suggests message ''+ x.id = Rpad(a, 8)'')"
proof -
  have fails: "\<not> bytes8_type = expr_type name_expr"
    by (simp add: bytes8_type_def name_expr_def bytes_type_def)
  have cast: "ty_class bytes8_type = ty_class (expr_type name_expr)"
    by (simp add: bytes8_type_def name_expr_def bytes_type_def)
  have process: "expr_process name_expr = None"
    by (simp add: name_expr_def)
  have lines: "one_line ''bytes[8] x = a''" "one_line ''x''" "one_line ''bytes[8]''"
    "one_line ''id''" "one_line (expr_tealish name_expr)"
    "one_line (ty_name (expr_type name_expr))" "one_line (ty_name bytes8_type)"
    by (simp_all add: name_expr_def bytes_type_def bytes8_type_def newline_def)
  have declared: "(\<lambda>n t. Inr (bytes8_type, 0)) ''x'' ''bytes[8]'' = Inr (bytes8_type, 0::nat)"
    by simp
  have object: "isinstance_StructType item_type \<or> isinstance_BoxType item_type"
    by (simp add: isinstance_StructType_def item_type_def)
  have field: "map_of (ty_fields item_type) ''id'' = Some (StructField 0 8 bytes8_type)"
    by (simp add: item_type_def)
  have texts:
    "suggestion (''bytes[8]'' @ '' '' @ ''x'') ''Cast'' (expr_tealish name_expr) ''bytes[8]''
       = ''+ bytes[8] x = Cast(a, bytes[8])''"
    "suggestion (''bytes[8]'' @ '' '' @ ''x'') ''Rpad'' (expr_tealish name_expr)
         (str_size (ty_size bytes8_type))
       = ''+ bytes[8] x = Rpad(a, 8)''"
    "suggestion (''x'' @ ''.'' @ ''id'') ''Cast'' (expr_tealish name_expr) (ty_name bytes8_type)
       = ''+ x.id = Cast(a, bytes[8])''"
    "suggestion (''x'' @ ''.'' @ ''id'') ''Rpad'' (expr_tealish name_expr)
         (str_size (ty_size bytes8_type))
       = ''+ x.id = Rpad(a, 8)''"
    by code_simp+
  have kind: "\<not> isinstance_IntType bytes8_type \<and> \<not> isinstance_StructType bytes8_type"
    by (simp add: isinstance_IntType_def isinstance_StructType_def bytes8_type_def)
  from C7_cast_and_padding_suggestions
         [of "(=)" bytes8_type name_expr "\<lambda>a b. ty_class a = ty_class b",
          OF fails cast process lines declared object field, where line_no = 4]
  show ?thesis
    using kind unfolding texts by simp
qed

section \<open>Return statements\<close>

lemma parse_args_all:
  "list_all2 (\<lambda>a e. parse_expression (strip a) = Some e) texts es
     \<Longrightarrow> parse_args parse_expression texts = Inr es"
  by (induction texts es rule: list_all2_induct) simp_all

lemma process_all_None:
  "(process_all es = None) = list_all (\<lambda>e. expr_process e = None) es"
  by (induction es) (auto split: option.splits)

lemma Return_check_None:
  "length args_expressions = i + length rs \<Longrightarrow>
     (Return_check can_hold args_expressions i rs = None)
       = list_all2 (\<lambda>r e. can_hold r (expr_type e)) rs (drop i args_expressions)"
proof (induction rs arbitrary: i)
  case Nil
  then show ?case by simp
next
  case (Cons r rs)
  then have i: "i < length args_expressions" by simp
  have d: "drop i args_expressions = args_expressions ! i # drop (Suc i) args_expressions"
    using i by (simp add: Cons_nth_drop_Suc)
  have "length args_expressions = Suc i + length rs" using Cons.prems by simp
  from Cons.IH [OF this] show ?case
    using i d by (simp add: Let_def)
qed

lemma Return_check_error:
  "length args_expressions = i + length rs \<Longrightarrow>
     Return_check can_hold args_expressions i rs = Some err \<Longrightarrow> \<exists>m. err = CompileError m"
proof (induction rs arbitrary: i)
  case Nil
  then show ?case by simp
next
  case (Cons r rs)
  then have i: "i < length args_expressions" by simp
  have "length args_expressions = Suc i + length rs" using Cons.prems by simp
  from Cons.IH [OF this] Cons.prems(2) i show ?case
    by (auto simp: Let_def split: if_splits)
qed

text \<open>
  C3. A \<^verbatim>\<open>return\<close> whose expressions \<open>es\<close> parse and process without an error is accepted
  exactly when a \<^verbatim>\<open>func\<close> encloses it whose return types are as many as the expressions and
  hold their types one by one. Without an enclosing \<^verbatim>\<open>func\<close> or with another number of
  return types the constructor raises \<open>ParseError\<close>; with the right number and a type that
  does not fit the constructor returns and \<^verbatim>\<open>process\<close> raises \<open>CompileError\<close>.
\<close>

theorem C3_return_accepted_iff:
  assumes pattern: "Return_pattern line = Some args"
      and parsed: "list_all2 (\<lambda>a e. parse_expression (strip a) = Some e)
                     (if args = [] then [] else split_return_args args) es"
      and processed: "list_all (\<lambda>e. expr_process e = None) es"
  shows "((\<exists>l. Return_compile parse_expression can_hold ancestors line_no line = Inr l)
            = (\<exists>func. find_parent_Func ancestors = Some func
                 \<and> length (Func_returns func) = length es
                 \<and> list_all2 (\<lambda>r e. can_hold r (expr_type e)) (Func_returns func) es))
       \<and> ((find_parent_Func ancestors = None
             \<or> (\<exists>func. find_parent_Func ancestors = Some func
                   \<and> length (Func_returns func) \<noteq> length es))
            = (\<exists>m. Return_init parse_expression ancestors line_no line = Inl (ParseError m)))
       \<and> ((\<exists>func. find_parent_Func ancestors = Some func
              \<and> length (Func_returns func) = length es
              \<and> \<not> list_all2 (\<lambda>r e. can_hold r (expr_type e)) (Func_returns func) es)
            = (\<exists>l m. Return_init parse_expression ancestors line_no line = Inr l
                 \<and> Return_process can_hold l = Some (CompileError m)))"
proof (cases "find_parent_Func ancestors")
  case None
  then show ?thesis
    using pattern by (simp add: Return_compile_def Return_init_def)
next
  case (Some func)
  have args: "(if args \<noteq> [] then parse_args parse_expression (split_return_args args)
               else Inr []) = Inr es"
  proof (cases "args = []")
    case True
    then show ?thesis using parsed by simp
  next
    case False
    then show ?thesis using parse_args_all [of parse_expression "split_return_args args" es] parsed
      by simp
  qed
  show ?thesis
  proof (cases "length (Func_returns func) = length es")
    case False
    then show ?thesis
      using pattern Some args by (auto simp: Return_compile_def Return_init_def)
  next
    case True
    let ?l = "Return line_no line args es (Func_returns func)"
    have init: "Return_init parse_expression ancestors line_no line = Inr ?l"
      using pattern Some args True by (simp add: Return_init_def)
    have rev: "process_all (rev es) = None"
      using processed by (simp add: process_all_None)
    have len: "length es = 0 + length (Func_returns func)" using True by simp
    have process: "Return_process can_hold ?l = Return_check can_hold es 0 (Func_returns func)"
      using rev by simp
    show ?thesis
    proof (cases "list_all2 (\<lambda>r e. can_hold r (expr_type e)) (Func_returns func) es")
      case True
      then have "Return_check can_hold es 0 (Func_returns func) = None"
        using Return_check_None [OF len, of can_hold] by simp
      then show ?thesis
        using init process Some True \<open>length (Func_returns func) = length es\<close>
        by (simp add: Return_compile_def)
    next
      case False
      then have "Return_check can_hold es 0 (Func_returns func) \<noteq> None"
        using Return_check_None [OF len, of can_hold] by simp
      then obtain err where err: "Return_check can_hold es 0 (Func_returns func) = Some err"
        by blast
      from Return_check_error [OF len err] obtain m where "err = CompileError m" by blast
      then show ?thesis
        using init process Some False err \<open>length (Func_returns func) = length es\<close>
        by (simp add: Return_compile_def)
    qed
  qed
qed

theorem C3_return_accepted_iff_witness:
  "\<exists>l. Return_compile any_int (=) [func_example] 2 ''return 1, f(2, 3)'' = Inr l"
proof -
  have pattern: "Return_pattern ''return 1, f(2, 3)'' = Some ''1, f(2, 3)''"
    by code_simp
  have split: "split_return_args ''1, f(2, 3)'' = [''1'', ''f(2, 3)'']"
    by code_simp
  let ?es = "[Expr None int_type [''// 1''] ''1'', Expr None int_type [''// f(2, 3)''] ''f(2, 3)'']"
  have strips: "strip ''1'' = ''1''" "strip ''f(2, 3)'' = ''f(2, 3)''"
    by code_simp+
  have parsed: "list_all2 (\<lambda>a e. any_int (strip a) = Some e)
                  (if ''1, f(2, 3)'' = [] then [] else split_return_args ''1, f(2, 3)'') ?es"
    unfolding split by (simp add: strips any_int_def)
  have processed: "list_all (\<lambda>e. expr_process e = None) ?es"
    by simp
  have func: "find_parent_Func [func_example] = Some func_example"
    by (simp add: func_example_def isinstance_Func_def)
  have returns: "Func_returns func_example = [int_type, int_type]"
    by (simp add: func_example_def)
  from C3_return_accepted_iff [OF pattern parsed processed, of "(=)" "[func_example]" 2]
  show ?thesis
    using func returns by simp
qed

section \<open>Splitting at the top-level commas\<close>

lemma find_split_Cons:
  "find_split p q i (c # cs) =
     (if splits p q c then Some i
      else find_split (next_parentheses p q c) (next_quotes q c) (Suc i) cs)"
  by (auto simp: Let_def splits_def next_parentheses_def next_quotes_def dquote_def)

lemma pieces_append:
  "pieces p q (a @ cur) cs = (a @ hd (pieces p q cur cs)) # tl (pieces p q cur cs)"
proof (induction cs arbitrary: p q cur)
  case Nil
  then show ?case by simp
next
  case (Cons c cs)
  show ?case
    using Cons [of _ _ "cur @ [c]"] by simp
qed

lemma pieces_cur:
  "pieces p q cur cs = (cur @ hd (pieces p q [] cs)) # tl (pieces p q [] cs)"
  using pieces_append [of p q cur "[]" cs] by simp

lemma pieces_not_Nil [simp]: "pieces p q cur cs \<noteq> []"
  using pieces_cur [of p q cur cs] by simp

text \<open>\<open>find_split\<close> finds the end of the first piece.\<close>

lemma pieces_find_split:
  "pieces p q cur cs =
     (case find_split p q i cs of
        None \<Rightarrow> [cur @ cs]
      | Some j \<Rightarrow> (cur @ take (j - i) cs) # pieces 0 False [] (drop (Suc (j - i)) cs))"
proof (induction cs arbitrary: p q cur i)
  case Nil
  then show ?case by simp
next
  case (Cons c cs)
  show ?case
  proof (cases "splits p q c")
    case True
    then show ?thesis by (simp add: find_split_Cons del: find_split.simps)
  next
    case False
    let ?p = "next_parentheses p q c" and ?q = "next_quotes q c"
    show ?thesis
    proof (cases "find_split ?p ?q (Suc i) cs")
      case None
      then show ?thesis
        using False Cons [of ?p ?q "cur @ [c]" "Suc i"]
        by (simp add: find_split_Cons del: find_split.simps)
    next
      case (Some j)
      then have "Suc i \<le> j" using find_split_bounds [of ?p ?q "Suc i" cs j] by simp
      then have "j - i = Suc (j - Suc i)" by simp
      then show ?thesis
        using False Some Cons [of ?p ?q "cur @ [c]" "Suc i"]
        by (simp add: find_split_Cons del: find_split.simps)
    qed
  qed
qed


subsection \<open>Blanks around a text\<close>

lemma isspace_scan:
  assumes "isspace c"
  shows "next_quotes q c = q" "next_parentheses p q c = p" "\<not> splits p q c"
proof -
  have "c \<noteq> dquote" "c \<noteq> CHR ''(''" "c \<noteq> CHR '')''" "c \<noteq> CHR '',''"
    using assms by (auto simp: isspace_def dquote_def Let_def)
  then show "next_quotes q c = q" "next_parentheses p q c = p" "\<not> splits p q c"
    by (simp_all add: next_quotes_def next_parentheses_def splits_def)
qed

lemma strip_blanks_left: "list_all isspace ws \<Longrightarrow> strip (ws @ x) = strip x"
  by (simp add: strip_def list_all_iff)

lemma dropWhile_blanks_right:
  "list_all isspace ws \<Longrightarrow>
     dropWhile isspace (rev (dropWhile isspace (x @ ws))) = dropWhile isspace (rev (dropWhile isspace x))"
proof (cases "list_all isspace x")
  case True
  assume "list_all isspace ws"
  with True have e: "dropWhile isspace (x @ ws) = []" "dropWhile isspace x = []"
    by (auto simp: list_all_iff)
  show ?thesis by (simp only: e)
next
  case False
  assume ws: "list_all isspace ws"
  from False obtain y where "y \<in> set x" "\<not> isspace y" by (auto simp: list_all_iff)
  then have e: "dropWhile isspace (x @ ws) = dropWhile isspace x @ ws"
    by simp
  have r: "dropWhile isspace (rev ws @ y) = dropWhile isspace y" for y
  proof (rule dropWhile_append2)
    fix c
    assume "c \<in> set (rev ws)"
    then show "isspace c" using ws by (simp add: list_all_iff)
  qed
  show ?thesis by (simp only: e rev_append r)
qed

lemma strip_blanks_right: "list_all isspace ws \<Longrightarrow> strip (x @ ws) = strip x"
  by (simp add: strip_def dropWhile_blanks_right)

lemma strip_strip [simp]: "strip (strip s) = strip s"
proof -
  have a: "dropWhile isspace (rev (dropWhile isspace s)) = [] \<or>
           \<not> isspace (hd (dropWhile isspace (rev (dropWhile isspace s))))"
    using hd_dropWhile [of isspace "rev (dropWhile isspace s)"] by blast
  let ?d = "dropWhile isspace (rev (dropWhile isspace s))"
  show ?thesis
  proof (cases "?d = []")
    case True
    have e: "strip s = []" by (simp only: strip_def True rev.simps)
    have n: "strip [] = []" by (simp add: strip_def)
    show ?thesis by (simp only: e n)
  next
    case False
    then have h: "\<not> isspace (hd ?d)" using a by blast
    have "dropWhile isspace s \<noteq> []"
    proof
      assume "dropWhile isspace s = []"
      then have "?d = []" by (simp only: rev.simps dropWhile.simps)
      with False show False by blast
    qed
    then have f: "\<not> isspace (hd (dropWhile isspace s))"
      using hd_dropWhile [of isspace s] by blast
    have l: "last (rev ?d) = hd ?d" using False by (simp add: last_rev)
    have d: "rev ?d \<noteq> []" using False by simp
    have "\<exists>k. rev (dropWhile isspace s) = take k (rev (dropWhile isspace s)) @ ?d"
      by (metis takeWhile_dropWhile_id takeWhile_eq_take)
    then obtain k where k: "rev (dropWhile isspace s) = take k (rev (dropWhile isspace s)) @ ?d"
      by blast
    then have "dropWhile isspace s = rev ?d @ rev (take k (rev (dropWhile isspace s)))"
      by (metis rev_append rev_rev_ident)
    then have "hd (rev ?d) = hd (dropWhile isspace s)"
      using d by (metis hd_append2)
    then have "\<not> isspace (hd (rev ?d))" using f by simp
    then have 1: "dropWhile isspace (rev ?d) = rev ?d"
      using d by (cases "rev ?d") auto
    have 2: "dropWhile isspace ?d = ?d"
      using h False by (cases ?d) auto
    show ?thesis
      unfolding strip_def using 1 2 by simp
  qed
qed

lemma strip_decomposition:
  "\<exists>ws1 ws2. list_all isspace ws1 \<and> list_all isspace ws2 \<and> t = ws1 @ strip t @ ws2"
proof -
  let ?d = "dropWhile isspace t"
  have 1: "t = takeWhile isspace t @ ?d" by simp
  have s: "strip t = rev (dropWhile isspace (rev ?d))" by (simp add: strip_def)
  have "?d = rev (dropWhile isspace (rev ?d)) @ rev (takeWhile isspace (rev ?d))"
    by (metis rev_append rev_rev_ident takeWhile_dropWhile_id)
  then have 2: "?d = strip t @ rev (takeWhile isspace (rev ?d))"
    by (simp only: s)
  have a: "list_all isspace (takeWhile isspace t)"
    by (auto simp: list_all_iff dest: set_takeWhileD)
  have b: "list_all isspace (rev (takeWhile isspace (rev ?d)))"
    by (auto simp: list_all_iff dest: set_takeWhileD)
  from 1 2 have "t = takeWhile isspace t @ strip t @ rev (takeWhile isspace (rev ?d))"
    by simp
  with a b show ?thesis by blast
qed

lemma pieces_blanks_left:
  "list_all isspace ws \<Longrightarrow> pieces p q cur (ws @ x) = pieces p q (cur @ ws) x"
  by (induction ws arbitrary: cur) (simp_all add: isspace_scan)

lemma map_strip_pieces_left:
  assumes "list_all isspace ws"
  shows "map strip (pieces p q [] (ws @ x)) = map strip (pieces p q [] x)"
proof -
  obtain h t where P: "pieces p q [] x = h # t"
    by (cases "pieces p q [] x") auto
  have "pieces p q [] (ws @ x) = pieces p q ws x"
    using pieces_blanks_left [OF assms, of p q "[]" x] by simp
  also have "\<dots> = (ws @ h) # t"
    by (subst pieces_cur) (simp only: P list.sel)
  finally show ?thesis
    by (simp only: P list.map strip_blanks_left [OF assms])
qed

lemma map_strip_pieces_right:
  "list_all isspace ws \<Longrightarrow> map strip (pieces p q cur (x @ ws)) = map strip (pieces p q cur x)"
proof (induction x arbitrary: p q cur)
  case Nil
  then show ?case
    using pieces_blanks_left [of ws p q cur "[]"] by (simp add: strip_blanks_right)
next
  case (Cons c x)
  then show ?case by simp
qed

lemma map_strip_pieces_strip:
  "map strip (pieces 0 False [] (strip t)) = map strip (pieces 0 False [] t)"
proof -
  from strip_decomposition [of t] obtain ws1 ws2 where
    ws: "list_all isspace ws1" "list_all isspace ws2" and t: "t = ws1 @ strip t @ ws2"
    by blast
  have "map strip (pieces 0 False [] (ws1 @ strip t @ ws2))
          = map strip (pieces 0 False [] (strip t @ ws2))"
    by (rule map_strip_pieces_left [OF ws(1)])
  also have "\<dots> = map strip (pieces 0 False [] (strip t))"
    by (rule map_strip_pieces_right [OF ws(2)])
  finally show ?thesis using t by simp
qed

subsection \<open>The function and the pass\<close>

lemma split_return_args_pieces:
  "map strip (split_return_args s) = map strip (pieces 0 False [] s)"
proof (induction s rule: split_return_args.induct)
  case (1 s)
  show ?case
  proof (cases "find_split 0 False 0 s")
    case None
    then show ?thesis
      using pieces_find_split [of 0 False "[]" s 0]
      by (subst split_return_args.simps) simp
  next
    case (Some i)
    have "map strip (split_return_args s)
            = strip (take i s) # map strip (split_return_args (strip (drop (Suc i) s)))"
      using Some by (subst split_return_args.simps) simp
    also have "\<dots> = strip (take i s) # map strip (pieces 0 False [] (strip (drop (Suc i) s)))"
      using 1 [OF Some] by simp
    also have "\<dots> = strip (take i s) # map strip (pieces 0 False [] (drop (Suc i) s))"
      by (simp add: map_strip_pieces_strip)
    also have "\<dots> = map strip (pieces 0 False [] s)"
      using Some pieces_find_split [of 0 False "[]" s 0] by simp
    finally show ?thesis .
  qed
qed

subsection \<open>The pass and the separators\<close>

lemma in_quotes_Suc:
  "n < length s \<Longrightarrow> in_quotes s (Suc n) = next_quotes (in_quotes s n) (s ! n)"
  by (simp add: in_quotes_def next_quotes_def take_Suc_conv_app_nth)

lemma parentheses_balance_Suc:
  "n < length s \<Longrightarrow>
     parentheses_balance s (Suc n) = next_parentheses (parentheses_balance s n) (in_quotes s n) (s ! n)"
  by (auto simp: parentheses_balance_def next_parentheses_def next_quotes_def dquote_def)

lemma separator_splits:
  "separator s n = splits (parentheses_balance s n) (in_quotes s n) (s ! n)"
  by (auto simp: separator_def splits_def next_parentheses_def next_quotes_def dquote_def)

lemma pieces_cut_from:
  "n \<le> length s \<Longrightarrow> start \<le> n \<Longrightarrow>
     pieces (parentheses_balance s n) (in_quotes s n) (take (n - start) (drop start s)) (drop n s)
       = cut_from start (filter (separator s) [n..<length s]) s"
proof (induction "length s - n" arbitrary: n start)
  case 0
  then show ?case by simp
next
  case (Suc k)
  then have n: "n < length s" by simp
  have d: "drop n s = s ! n # drop (Suc n) s"
    using n by (simp add: Cons_nth_drop_Suc)
  have u: "[n..<length s] = n # [Suc n..<length s]"
    using n by (simp add: upt_conv_Cons)
  have k: "k = length s - Suc n" using Suc.hyps(2) by simp
  show ?case
  proof (cases "separator s n")
    case True
    then have sp: "splits (parentheses_balance s n) (in_quotes s n) (s ! n)"
      by (simp add: separator_splits)
    then have a: "\<not> next_quotes (in_quotes s n) (s ! n)"
      and b: "next_parentheses (parentheses_balance s n) (in_quotes s n) (s ! n) = 0"
      unfolding splits_def by blast+
    have st: "parentheses_balance s (Suc n) = 0" "in_quotes s (Suc n) = False"
      using a b by (simp_all only: parentheses_balance_Suc [OF n] in_quotes_Suc [OF n])
    have "pieces 0 False (take (Suc n - Suc n) (drop (Suc n) s)) (drop (Suc n) s)
            = cut_from (Suc n) (filter (separator s) [Suc n..<length s]) s"
      using Suc.hyps(1) [OF k, of "Suc n"] n st by simp
    then show ?thesis
      using True sp d u by simp
  next
    case False
    then have sp: "\<not> splits (parentheses_balance s n) (in_quotes s n) (s ! n)"
      by (simp add: separator_splits)
    have i: "n - start < length (drop start s)" using n Suc.prems by simp
    have t: "take (Suc n - start) (drop start s) = take (n - start) (drop start s) @ [s ! n]"
      using take_Suc_conv_app_nth [OF i] Suc.prems(2) n by (simp add: Suc_diff_le)
    have "pieces (parentheses_balance s (Suc n)) (in_quotes s (Suc n))
            (take (Suc n - start) (drop start s)) (drop (Suc n) s)
            = cut_from start (filter (separator s) [Suc n..<length s]) s"
      using Suc.hyps(1) [OF k, of start] n Suc.prems(2) by simp
    then show ?thesis
      using False sp d u t n by (simp add: parentheses_balance_Suc in_quotes_Suc)
  qed
qed

lemma pieces_separators: "pieces 0 False [] s = cut_from 0 (separators s) s"
  using pieces_cut_from [of 0 s 0]
  by (simp add: separators_def parentheses_balance_def in_quotes_def)

lemma length_cut_from: "length (cut_from start js s) = Suc (length js)"
  by (induction js arbitrary: start) simp_all

lemma length_split_return_args:
  "length (split_return_args s) = Suc (length (separators s))"
proof -
  have "length (map strip (split_return_args s)) = length (map strip (cut_from 0 (separators s) s))"
    by (simp only: split_return_args_pieces pieces_separators)
  then show ?thesis by (simp add: length_cut_from)
qed

lemma fold_paren_step:
  "i \<le> length s \<Longrightarrow>
     fold paren_step (take i s) (False, 0) = (in_quotes s i, open_parentheses s i)"
proof (induction i)
  case 0
  then show ?case by (simp add: in_quotes_def open_parentheses_def)
next
  case (Suc i)
  then have i: "i < length s" by simp
  have "fold paren_step (take (Suc i) s) (False, 0)
          = paren_step (s ! i) (fold paren_step (take i s) (False, 0))"
    using i by (simp add: take_Suc_conv_app_nth)
  also have "\<dots> = paren_step (s ! i) (in_quotes s i, open_parentheses s i)"
    using Suc by simp
  finally have f: "fold paren_step (take (Suc i) s) (False, 0)
                     = paren_step (s ! i) (in_quotes s i, open_parentheses s i)" .
  have "fst (paren_step (s ! i) (in_quotes s i, open_parentheses s i)) = in_quotes s (Suc i)"
    using i by (simp add: paren_step_def in_quotes_Suc next_quotes_def Let_def)
  then show ?case
    using f by (simp add: open_parentheses_def prod_eq_iff)
qed

lemma open_parentheses_Suc:
  "i < length s \<Longrightarrow>
     open_parentheses s (Suc i) = snd (paren_step (s ! i) (in_quotes s i, open_parentheses s i))"
  using fold_paren_step [of i s]
  by (simp add: open_parentheses_def take_Suc_conv_app_nth)

lemma open_parentheses_balance:
  "i \<le> length s \<Longrightarrow> (\<And>j. j \<le> i \<Longrightarrow> 0 \<le> parentheses_balance s j) \<Longrightarrow>
     int (open_parentheses s i) = parentheses_balance s i"
proof (induction i)
  case 0
  then show ?case by (simp add: open_parentheses_def parentheses_balance_def)
next
  case (Suc i)
  then have i: "i < length s" by simp
  have IH: "int (open_parentheses s i) = parentheses_balance s i"
    using Suc by simp
  have nn: "0 \<le> parentheses_balance s (Suc i)" using Suc.prems(2) by simp
  show ?case
    using nn IH
    unfolding open_parentheses_Suc [OF i] parentheses_balance_Suc [OF i]
    by (auto simp: paren_step_def next_parentheses_def next_quotes_def Let_def dquote_def)
qed

lemma well_nested_nth: "well_nested s \<Longrightarrow> j \<le> length s \<Longrightarrow> 0 \<le> parentheses_balance s j"
  by (cases "j = length s") (auto simp: well_nested_def list_all_iff)

lemma well_nested_separators:
  assumes "well_nested s"
  shows "separators s = top_level_commas s"
  unfolding separators_def top_level_commas_def
proof (rule filter_cong [OF refl])
  fix i
  assume "i \<in> set [0..<length s]"
  then have i: "i \<le> length s" by simp
  have "int (open_parentheses s i) = parentheses_balance s i"
    using open_parentheses_balance [OF i] well_nested_nth [OF assms] i by simp
  then show "separator s i = top_level_comma s i"
    by (auto simp: separator_def top_level_comma_def)
qed

lemma split_return_args_separators:
  "map strip (split_return_args s) = map strip (cut_from 0 (separators s) s)"
  by (simp only: split_return_args_pieces pieces_separators)

text \<open>
  C9. The claim: \<^verbatim>\<open>split_return_args\<close> splits only at commas at nesting depth zero outside the
  double-quoted segments, and a comma inside parentheses never separates two expressions.

  The loop counts opening parentheses up and closing ones down and splits where the count
  is zero (lines 2049--2054); a closing parenthesis with none open takes the count below
  zero, and the next opening one takes it back to zero. In \<^verbatim>\<open>)(a,b)\<close> the comma at index 3 is
  inside the parentheses opened at index 1, and the function splits there.
\<close>

theorem C9_comma_inside_parentheses_separates:
  "map strip (split_return_args unbalanced_example) = ['')(a'', ''b)'']
   \<and> unbalanced_example ! 3 = CHR '',''
   \<and> open_parentheses unbalanced_example 3 = 1
   \<and> top_level_commas unbalanced_example = []"
  by code_simp

text \<open>
  C9, amended. In a text of which no prefix closes more parentheses than it opens,
  \<^verbatim>\<open>split_return_args\<close> cuts at the top-level commas and nowhere else: the expressions that
  \<^verbatim>\<open>Return.__init__\<close> parses, the pieces with their blanks stripped, are the pieces between
  the commas outside parentheses and outside the double-quoted segments, and there is one
  more piece than there are such commas.
\<close>

theorem C9_split_at_top_level_commas:
  assumes "well_nested s"
  shows "map strip (split_return_args s) = top_level_split s
         \<and> length (split_return_args s) = Suc (length (top_level_commas s))"
  using split_return_args_separators [of s] length_split_return_args [of s]
    well_nested_separators [OF assms]
  by (simp add: top_level_split_def)

theorem C9_split_at_top_level_commas_witness:
  "top_level_commas return_args_example = [7]
   \<and> map strip (split_return_args return_args_example)
       = [''f(a, b)'', [dquote] @ ''x,y'' @ [dquote]]
   \<and> length (split_return_args return_args_example) = 2"
proof -
  have w: "well_nested return_args_example" by code_simp
  have c: "top_level_commas return_args_example = [7]" by code_simp
  have p: "top_level_split return_args_example = [''f(a, b)'', [dquote] @ ''x,y'' @ [dquote]]"
    by code_simp
  from C9_split_at_top_level_commas [OF w] show ?thesis
    using c p by simp
qed

section \<open>Code generation only appends\<close>

lemma appendsI: "(\<And>st st'. f st = Inr st' \<Longrightarrow> prefix (teal st) (teal st')) \<Longrightarrow> appends f"
  by (simp add: appends_def)


lemma appends_Inr [simp]: "appends Inr"
  by (simp add: appends_def)

lemma appends_w [simp]: "appends (w t)"
  by (auto simp: appends_def w_def)

lemma appends_we [simp]: "appends (we e)"
  by (auto simp: appends_def we_def)

lemma appends_up [simp]: "appends up"
  by (auto simp: appends_def up_def)

lemma appends_down [simp]: "appends down"
  by (auto simp: appends_def down_def)

lemma appends_seq: "list_all appends fs \<Longrightarrow> appends (seq fs)"
proof (induction fs)
  case Nil
  then show ?case by (simp add: appends_def)
next
  case (Cons f fs)
  then have f: "appends f" and fs: "appends (seq fs)" by simp_all
  show ?case
  proof (rule appendsI)
    fix st st'
    assume "seq (f # fs) st = Inr st'"
    with seq_Cons_Inr [of f fs st st'] obtain st1 where
      1: "f st = Inr st1" and 2: "seq fs st1 = Inr st'"
      by blast
    from f 1 have "prefix (teal st) (teal st1)" by (simp add: appends_def)
    moreover from fs 2 have "prefix (teal st1) (teal st')" by (simp add: appends_def)
    ultimately show "prefix (teal st) (teal st')" by (rule prefix_order.trans)
  qed
qed

lemma appends_if [simp]: "appends f \<Longrightarrow> appends g \<Longrightarrow> appends (if b then f else g)"
  by simp

lemma appends_pure:
  "(\<And>st. prefix (teal st) (teal (g st))) \<Longrightarrow> appends (\<lambda>st. Inr (g st))"
  by (auto simp: appends_def)

lemma appends_map_w [simp]: "list_all appends (map w ts)"
  by (simp add: list_all_iff)

lemma appends_map_we [simp]: "list_all appends (map we es)"
  by (simp add: list_all_iff)

lemma appends_Switch_option [simp]: "appends (Switch_option expression opt)"
  by (cases opt) (simp add: Switch_option_def appends_seq)

lemma appends_write_on_completion [simp]: "appends (write_on_completion func)"
  unfolding appends_def write_on_completion_def
  by (auto simp: w_def Let_def split: option.splits if_splits)

lemma prefix_write_returns: "prefix (teal st) (teal (write_returns i rs st))"
proof (induction rs arbitrary: i st)
  case Nil
  then show ?case by simp
next
  case (Cons r rs)
  let ?st1 = "if i > 0 then writer_write (''uncover '' @ str_nat i @ '' // '' @ ty_name r) st
              else writer_write (''// uncover '' @ str_nat i @ '' '' @ ty_name r) st"
  let ?st2 = "if isinstance_IntType r then writer_write ''itob'' ?st1 else ?st1"
  have "prefix (teal st) (teal ?st2)" by simp
  moreover have "prefix (teal ?st2) (teal (write_returns (Suc i) rs ?st2))" by (rule Cons.IH)
  ultimately have "prefix (teal st) (teal (write_returns (Suc i) rs ?st2))"
    by (rule prefix_order.trans)
  then show ?case by (simp add: Let_def)
qed

lemma appends_write_return_log [simp]: "appends (write_return_log returns)"
proof -
  have "write_return_log returns =
          (if returns \<noteq> [] then
             seq [w (''// return '' @ join '', '' (map ty_name returns)),
                  (\<lambda>st. Inr (write_returns 0 returns st)),
                  (\<lambda>st. Inr (fold writer_write (replicate (length returns - 1) ''concat'') st)),
                  w ''pushbytes 0x151f7c75; swap; concat; log // arc4 return log'']
           else Inr)"
    by (rule ext) (simp add: write_return_log_def)
  moreover have "appends (\<lambda>st. Inr (write_returns 0 returns st))"
    by (rule appends_pure) (rule prefix_write_returns)
  moreover have
    "appends (\<lambda>st. Inr (fold writer_write (replicate (length returns - 1) ''concat'') st))"
    by (rule appends_pure) (simp del: fold_replicate)
  ultimately show ?thesis by (simp add: appends_seq)
qed

lemma appends_write_route [simp]: "appends (write_route route)"
proof -
  have "appends (\<lambda>st. Inr (fold (\<lambda>e. write_one_line (expr_teal e)) (arg_expressions route) st))"
    by (rule appends_pure) (simp add: teal_fold_one_line)
  then show ?thesis by (simp add: write_route_def appends_seq)
qed

lemma appends_Router_write_teal [simp]: "appends (Router_write_teal line_no line routes)"
  unfolding Router_write_teal_def
  by (rule appends_seq) (auto simp: list_all_iff)

lemma appends_write_setter [simp]: "appends (write_setter data_type setter)"
  by (auto simp: appends_def write_setter_def split: sum.splits)

lemma appends_write_box_method [simp]: "appends (write_box_method method box_size struct_name)"
  by (simp add: write_box_method_def)

lemma appends_write_leaf [simp]: "appends (write_leaf l)"
proof (cases l)
  case (Assert line_no line arg message)
  then show ?thesis by (cases message) (simp_all add: appends_seq)
next
  case (VarDeclaration line_no line type_name name slot expression)
  then show ?thesis by (cases expression) (simp_all add: appends_seq)
next
  case (Assignment line_no line expression name_nodes)
  have "list_all appends
          (map (\<lambda>(v, slot). if v = ''_'' then w ''pop // discarding value for _''
                             else w (''store '' @ str_nat slot @ '' // '' @ v)) name_nodes)"
    by (auto simp: list_all_iff)
  then show ?thesis using Assignment by (simp add: appends_seq)
next
  case (Switch line_no line expression options else_target)
  have "list_all appends (map (Switch_option expression) options)"
    by (simp add: list_all_iff)
  moreover have "appends (case else_target of
               Some (block_name, label) \<Rightarrow> w (''b '' @ label @ '' // else'')
             | None \<Rightarrow> w ''err // unexpected value'')"
    by (cases else_target) auto
  ultimately show ?thesis using Switch by (simp add: appends_seq)
qed (simp_all add: appends_seq)

lemma appends_set_use_inner_txns_macro [simp]: "appends (set_use_inner_txns_macro b)"
  by (auto simp: appends_def set_use_inner_txns_macro_def teal_def)

lemma prefix_fold_drop:
  "prefix (teal st) (teal (fold (\<lambda>line. writer_write (f line)) ls st))"
proof (induction ls arbitrary: st)
  case Nil
  then show ?case by simp
next
  case (Cons l ls)
  have "prefix (teal st) (teal (writer_write (f l) st))" by simp
  moreover have "prefix (teal (writer_write (f l) st))
                   (teal (fold (\<lambda>line. writer_write (f line)) ls (writer_write (f l) st)))"
    by (rule Cons.IH)
  ultimately have "prefix (teal st)
                     (teal (fold (\<lambda>line. writer_write (f line)) ls (writer_write (f l) st)))"
    by (rule prefix_order.trans)
  then show ?case by simp
qed

lemma appends_Program_epilogue [simp]: "appends (Program_epilogue flag_var)"
  unfolding appends_def Program_epilogue_def
  by (auto simp: Let_def prefix_fold_drop split: option.splits if_splits)

lemma appends_write_b_end [simp]: "appends (write_b_end end_label)"
  by (simp add: write_b_end_def appends_seq)




section \<open>The labels of an if statement\<close>




lemma length_set_next_labels [simp]: "length (set_next_labels end_label cs) = length cs"
  by (induction end_label cs rule: set_next_labels.induct) simp_all

lemma isinstance_branch_set_label [simp]:
  "isinstance_branch (set_label l n) = isinstance_branch n"
  by (cases n)
     (simp_all add: isinstance_branch_def isinstance_IfThen_def isinstance_Elif_def
        isinstance_Else_def)



section \<open>The lines of an if statement\<close>




















end
